theory Spec2Isabelle
  imports Complex_Main
begin

section \<open>Numbers\<close>

text \<open>
  The charts compute with JavaScript numbers, the 64-bit binary floating-point numbers of
  IEEE 754. An array index or a value produced by \<open>Math.floor\<close> is modelled as an
  \<open>int\<close>, any other finite number as a \<open>real\<close>. Division is the one operation of the
  charts that leaves the finite numbers: \<open>x / 0\<close> is an infinity or NaN and raises
  nothing. Where the source divides by a quantity that can be zero, the quotient is a
  \<open>jsnum\<close>, and the arithmetic on it follows IEEE 754 for the special values (a finite
  zero is taken as \<open>+0\<close>, the value that \<open>a - a\<close> and an unsigned width of zero have).

  The operations \<open>jadd\<close> to \<open>jdiv\<close> give the exact result on finite arguments. Where
  the rounding of a result decides what the code does (the offset of a drag), the exact
  result is rounded by \<open>dbl\<close>. Elsewhere the exact result is kept: the zoom handlers
  multiply the size of the viewport by 0.8, 0.9, 1.1 or 1.2, and \<open>Math.floor\<close> of the
  rounded product is the floor of the exact product.
\<close>

datatype jsnum = Fin real | PInf | NInf | NaN

fun jneg :: "jsnum \<Rightarrow> jsnum" where
  "jneg (Fin a) = Fin (- a)"
| "jneg PInf = NInf"
| "jneg NInf = PInf"
| "jneg NaN = NaN"

fun jadd :: "jsnum \<Rightarrow> jsnum \<Rightarrow> jsnum" where
  "jadd NaN _ = NaN"
| "jadd _ NaN = NaN"
| "jadd (Fin a) (Fin b) = Fin (a + b)"
| "jadd PInf NInf = NaN"
| "jadd NInf PInf = NaN"
| "jadd PInf _ = PInf"
| "jadd NInf _ = NInf"
| "jadd (Fin _) b = b"

definition jsub :: "jsnum \<Rightarrow> jsnum \<Rightarrow> jsnum" where
  "jsub a b = jadd a (jneg b)"

text \<open>The infinity with the sign of a finite number that is not zero.\<close>

definition inf_of_sign :: "real \<Rightarrow> jsnum" where
  "inf_of_sign a = (if 0 < a then PInf else NInf)"

fun jmul :: "jsnum \<Rightarrow> jsnum \<Rightarrow> jsnum" where
  "jmul NaN _ = NaN"
| "jmul _ NaN = NaN"
| "jmul (Fin a) (Fin b) = Fin (a * b)"
| "jmul (Fin a) PInf = (if a = 0 then NaN else inf_of_sign a)"
| "jmul (Fin a) NInf = (if a = 0 then NaN else inf_of_sign (- a))"
| "jmul PInf (Fin b) = (if b = 0 then NaN else inf_of_sign b)"
| "jmul NInf (Fin b) = (if b = 0 then NaN else inf_of_sign (- b))"
| "jmul PInf PInf = PInf"
| "jmul NInf NInf = PInf"
| "jmul PInf NInf = NInf"
| "jmul NInf PInf = NInf"

fun jdiv :: "jsnum \<Rightarrow> jsnum \<Rightarrow> jsnum" where
  "jdiv NaN _ = NaN"
| "jdiv _ NaN = NaN"
| "jdiv (Fin a) (Fin b) =
     (if b = 0 then (if a = 0 then NaN else inf_of_sign a) else Fin (a / b))"
| "jdiv (Fin a) _ = Fin 0"
| "jdiv PInf (Fin b) = (if 0 \<le> b then PInf else NInf)"
| "jdiv NInf (Fin b) = (if 0 \<le> b then NInf else PInf)"
| "jdiv _ _ = NaN"

fun jabs :: "jsnum \<Rightarrow> jsnum" where
  "jabs (Fin a) = Fin \<bar>a\<bar>"
| "jabs NaN = NaN"
| "jabs _ = PInf"

text \<open>\<open>a < b\<close> of the source: false as soon as one side is NaN.\<close>

fun jless :: "jsnum \<Rightarrow> jsnum \<Rightarrow> bool" where
  "jless NaN _ = False"
| "jless _ NaN = False"
| "jless (Fin a) (Fin b) = (a < b)"
| "jless NInf b = (b \<noteq> NInf)"
| "jless a PInf = (a \<noteq> PInf)"
| "jless _ _ = False"

text \<open>\<open>Math.min(a, b)\<close>: NaN as soon as one argument is NaN.\<close>

fun jmin :: "jsnum \<Rightarrow> jsnum \<Rightarrow> jsnum" where
  "jmin NaN _ = NaN"
| "jmin _ NaN = NaN"
| "jmin a b = (if jless b a then b else a)"

fun is_finite :: "jsnum \<Rightarrow> bool" where
  "is_finite (Fin _) = True"
| "is_finite _ = False"

subsection \<open>Rounding to a 64-bit number\<close>

text \<open>
  \<open>floor_log2 n\<close> is the position of the leading bit of \<open>n\<close>, and \<open>exponent x\<close> the
  integer \<open>e\<close> with \<open>2^e \<le> |x| < 2^(e+1)\<close>, for \<open>x\<close> other than 0 (below 1 it is found
  from the reciprocal).
\<close>

fun floor_log2 :: "nat \<Rightarrow> nat" where
  "floor_log2 n = (if n < 2 then 0 else Suc (floor_log2 (n div 2)))"

declare floor_log2.simps [simp del]

definition exponent :: "real \<Rightarrow> int" where
  "exponent x =
     (if 1 \<le> \<bar>x\<bar> then int (floor_log2 (nat \<lfloor>\<bar>x\<bar>\<rfloor>))
      else - int (floor_log2 (nat (\<lceil>1 / \<bar>x\<bar>\<rceil> - 1))) - 1)"

definition pow2 :: "int \<Rightarrow> real" where
  "pow2 e = (if 0 \<le> e then 2 ^ nat e else 1 / 2 ^ nat (- e))"

text \<open>The nearest integer; of two nearest ones the even one.\<close>

definition round_even :: "real \<Rightarrow> int" where
  "round_even x =
     (let n = \<lfloor>x\<rfloor>; r = x - of_int n
      in if r < 1 / 2 then n else if 1 / 2 < r then n + 1 else if even n then n else n + 1)"

text \<open>
  The 64-bit number nearest to a real (round to nearest, ties to even): a multiple of
  \<open>2^q\<close> with a significand of 53 bits, where \<open>q\<close> is no less than -1074 (below
  \<open>2^-1022\<close> the spacing stays \<open>2^-1074\<close>), or an infinity when the rounded value
  reaches \<open>2^1024\<close>. The sign of a zero is not kept.
\<close>

definition to_double :: "real \<Rightarrow> jsnum" where
  "to_double x =
     (if x = 0 then Fin 0
      else (let q = max (exponent x) (- 1022) - 52;
                y = of_int (round_even (x / pow2 q)) * pow2 q
            in if pow2 1024 \<le> \<bar>y\<bar> then inf_of_sign x else Fin y))"

fun dbl :: "jsnum \<Rightarrow> jsnum" where
  "dbl (Fin a) = to_double a"
| "dbl z = z"

section \<open>Viewport controller\<close>

text \<open>
  The interface \<open>ChartState\<close> of \<open>RealStockChart.tsx\<close> (the interactive chart has the
  same one). \<open>dragStartX\<close> is optional in the source: \<open>None\<close> is \<open>undefined\<close>. The
  viewport bounds are indices into the series.
\<close>

record ChartState =
  startIndex :: int
  endIndex :: int
  scale :: real
  dragStartX :: "real option"
  isDragging :: bool
  viewportStart :: int
  viewportEnd :: int

text \<open>
  Every handler reads the chart state of the last render and the length of the series
  (\<open>stockData.length\<close>, the parameter \<open>len\<close>) and replaces the chart state. Events are
  handled one at a time, each on the state the previous one left.
\<close>

definition handleWheel :: "nat \<Rightarrow> real \<Rightarrow> ChartState \<Rightarrow> ChartState" where
  "handleWheel len deltaY s =
     (let zoomFactor = (if deltaY > 0 then 11 / 10 else 9 / 10 :: real);
          maxVisible = max 10 (int len);
          currentVisible = viewportEnd s - viewportStart s;
          newVisible = min maxVisible (max 10 \<lfloor>of_int currentVisible * zoomFactor\<rfloor>)
      in if newVisible \<noteq> currentVisible then
           (let center = (of_int (viewportStart s + viewportEnd s) :: real) / 2;
                newStart = max 0 \<lfloor>center - of_int newVisible / 2\<rfloor>;
                newEnd = min (int len) (newStart + newVisible)
            in s\<lparr>viewportStart := newStart, viewportEnd := newEnd\<rparr>)
         else s)"

definition handleMouseDown :: "real \<Rightarrow> ChartState \<Rightarrow> ChartState" where
  "handleMouseDown clientX s = s\<lparr>isDragging := True, dragStartX := Some clientX\<rparr>"

text \<open>
  The offset of a drag: \<open>Math.floor(deltaX * sensitivity)\<close> with
  \<open>deltaX = e.clientX - chartState.dragStartX\<close> and \<open>sensitivity\<close> the size of the
  viewport divided by the width of the canvas, each operation rounded as the code rounds
  it. The width can be zero; then \<open>sensitivity\<close> is not finite, and neither is the
  product under \<open>Math.floor\<close>, which returns such an argument as it is: the offset is
  \<open>None\<close>.
\<close>

definition dragOffset :: "real \<Rightarrow> real \<Rightarrow> int \<Rightarrow> nat \<Rightarrow> int option" where
  "dragOffset clientX dragStart viewportSize width =
     (let deltaX = dbl (jsub (Fin clientX) (Fin dragStart));
          sensitivity = dbl (jdiv (Fin (of_int viewportSize)) (Fin (real width)))
      in case dbl (jmul deltaX sensitivity) of
           Fin v \<Rightarrow> Some \<lfloor>v\<rfloor>
         | _ \<Rightarrow> None)"

text \<open>
  \<open>canvas\<close> is the width of the canvas element, \<open>None\<close> when the reference is not
  mounted. An offset that is not finite commits nothing: with NaN the test
  \<open>Math.abs(offset) > 0\<close> is false; with an infinity one of \<open>newStart\<close>, \<open>newEnd\<close> is
  that infinity and their difference is not the finite \<open>viewportSize\<close>. With a finite
  offset the code subtracts integers; on a viewport inside a series these differences are
  exact, or so large that the test of the size fails as it does here.
\<close>

definition handleMouseMove :: "nat \<Rightarrow> real \<Rightarrow> nat option \<Rightarrow> ChartState \<Rightarrow> ChartState" where
  "handleMouseMove len clientX canvas s =
     (if \<not> isDragging s then s
      else case dragStartX s of
        None \<Rightarrow> s
      | Some anchor \<Rightarrow>
          (case canvas of
             None \<Rightarrow> s
           | Some width \<Rightarrow>
               (case dragOffset clientX anchor (viewportEnd s - viewportStart s) width of
                  None \<Rightarrow> s
                | Some offset \<Rightarrow>
                    if \<bar>offset\<bar> > 0 then
                      (let newStart = max 0 (viewportStart s - offset);
                           newEnd = min (int len) (viewportEnd s - offset);
                           viewportSize = viewportEnd s - viewportStart s
                       in if newEnd - newStart = viewportSize then
                            s\<lparr>viewportStart := newStart, viewportEnd := newEnd,
                              dragStartX := Some clientX\<rparr>
                          else s)
                    else s)))"

definition handleMouseUp :: "ChartState \<Rightarrow> ChartState" where
  "handleMouseUp s = s\<lparr>isDragging := False, dragStartX := None\<rparr>"

definition zoomIn :: "nat \<Rightarrow> ChartState \<Rightarrow> ChartState" where
  "zoomIn len s =
     (let currentVisible = viewportEnd s - viewportStart s;
          newVisible = max 10 \<lfloor>(of_int currentVisible :: real) * (8 / 10)\<rfloor>;
          center = (of_int (viewportStart s + viewportEnd s) :: real) / 2;
          newStart = max 0 \<lfloor>center - of_int newVisible / 2\<rfloor>;
          newEnd = min (int len) (newStart + newVisible)
      in s\<lparr>viewportStart := newStart, viewportEnd := newEnd\<rparr>)"

definition zoomOut :: "nat \<Rightarrow> ChartState \<Rightarrow> ChartState" where
  "zoomOut len s =
     (let currentVisible = viewportEnd s - viewportStart s;
          newVisible = min (int len) \<lfloor>(of_int currentVisible :: real) * (12 / 10)\<rfloor>;
          center = (of_int (viewportStart s + viewportEnd s) :: real) / 2;
          newStart = max 0 \<lfloor>center - of_int newVisible / 2\<rfloor>;
          newEnd = min (int len) (newStart + newVisible)
      in s\<lparr>viewportStart := newStart, viewportEnd := newEnd\<rparr>)"

definition resetView :: "nat \<Rightarrow> ChartState \<Rightarrow> ChartState" where
  "resetView len s = s\<lparr>viewportStart := 0, viewportEnd := int len\<rparr>"

text \<open>The events the canvas and the three buttons deliver, and the handler of each.\<close>

datatype event =
    Wheel real
  | MouseDown real
  | MouseMove real "nat option"
  | MouseUp
  | ZoomIn
  | ZoomOut
  | ResetView

fun handle :: "nat \<Rightarrow> ChartState \<Rightarrow> event \<Rightarrow> ChartState" where
  "handle len s (Wheel deltaY) = handleWheel len deltaY s"
| "handle len s (MouseDown clientX) = handleMouseDown clientX s"
| "handle len s (MouseMove clientX canvas) = handleMouseMove len clientX canvas s"
| "handle len s MouseUp = handleMouseUp s"
| "handle len s ZoomIn = zoomIn len s"
| "handle len s ZoomOut = zoomOut len s"
| "handle len s ResetView = resetView len s"

definition run :: "nat \<Rightarrow> ChartState \<Rightarrow> event list \<Rightarrow> ChartState" where
  "run len s es = foldl (handle len) s es"

text \<open>The viewport invariant of the specification, with \<open>minVisible = 10\<close>.\<close>

definition viewport_inv :: "nat \<Rightarrow> ChartState \<Rightarrow> bool" where
  "viewport_inv len s \<longleftrightarrow>
     0 \<le> viewportStart s \<and> viewportStart s < viewportEnd s \<and> viewportEnd s \<le> int len \<and>
     10 \<le> viewportEnd s - viewportStart s \<and> viewportEnd s - viewportStart s \<le> int len"

text \<open>
  The wheel transition in the words of the specification, to be compared with
  \<open>handleWheel\<close>: the new size is the rounded product clamped to \<open>[10, length]\<close>
  (\<open>round\<close> is \<open>Math.round\<close>, halves upwards), the new start is clamped to
  \<open>[0, length - newSize]\<close>, and the new end is the new start plus the new size.
\<close>

definition clamp :: "int \<Rightarrow> int \<Rightarrow> int \<Rightarrow> int" where
  "clamp x lo hi = max lo (min hi x)"

definition round_half_up :: "real \<Rightarrow> int" where
  "round_half_up x = \<lfloor>x + 1 / 2\<rfloor>"

definition wheel_spec :: "nat \<Rightarrow> real \<Rightarrow> int \<times> int \<Rightarrow> int \<times> int" where
  "wheel_spec len deltaY vp =
     (let zoomFactor = (if deltaY > 0 then 11 / 10 else 9 / 10 :: real);
          newSize = clamp (round_half_up (of_int (snd vp - fst vp) * zoomFactor)) 10 (int len);
          center = (of_int (fst vp + snd vp) :: real) / 2;
          newStart = clamp \<lfloor>center - of_int newSize / 2\<rfloor> 0 (int len - newSize);
          newEnd = newStart + newSize
      in (newStart, newEnd))"

section \<open>Series model\<close>

text \<open>
  The interface \<open>StockData\<close>. The source keeps \<open>date\<close> as the ISO calendar day of a
  \<open>Date\<close>, here the number of that day counted from 1970-01-01 (the formatting and the
  range of the host's \<open>Date\<close> are not modelled). The field \<open>open\<close> is named
  \<open>open_price\<close>.
\<close>

record StockData =
  date :: int
  open_price :: real
  high :: real
  low :: real
  close :: real
  volume :: real

text \<open>
  \<open>Number(x.toFixed(2))\<close>: the multiple of 0.01 nearest to \<open>x\<close>; of two nearest ones
  \<open>toFixed\<close> takes the larger in absolute value.
\<close>

definition toFixed2 :: "real \<Rightarrow> real" where
  "toFixed2 x =
     (if x < 0 then - (of_int \<lfloor>- x * 100 + 1 / 2\<rfloor> / 100)
      else of_int \<lfloor>x * 100 + 1 / 2\<rfloor> / 100)"

section \<open>Errors\<close>

text \<open>
  The messages of the errors the charts raise and show. The source writes them in
  Chinese; each constructor is named by what its message says.
  \<^item> \<open>ApiRequestFailed\<close>, \<open>CannotGetStockData\<close>: raised by \<open>fetchRealStockData\<close>;
  \<^item> \<open>HttpStatus\<close> (the text \<open>HTTP status: statusText\<close>), \<open>InvalidDataFormat\<close>,
    \<open>StockDataEmpty\<close>, \<open>NoValidStockData\<close>: raised by \<open>fetchYahooFinanceData\<close>;
  \<^item> \<open>RealDataFailedShowingMock\<close> ("real data could not be fetched, showing simulated
    data") and \<open>DataLoadFailed\<close>: set by \<open>loadData\<close>.
\<close>

datatype message =
    ApiRequestFailed
  | CannotGetStockData
  | HttpStatus nat
  | InvalidDataFormat
  | StockDataEmpty
  | NoValidStockData
  | RealDataFailedShowingMock
  | DataLoadFailed

text \<open>
  What a \<open>throw\<close> carries: an \<open>Error\<close> with a message, the \<open>TypeError\<close> of a rejected
  \<open>fetch\<close> or of a property read on \<open>undefined\<close> or \<open>null\<close>, the \<open>SyntaxError\<close> of
  \<open>response.json()\<close> on a body that is not JSON, the \<open>RangeError\<close> of
  \<open>toISOString()\<close> on a date out of range.
\<close>

datatype exn = Error message | TypeError | SyntaxError | RangeError

section \<open>Synthetic series generator\<close>

text \<open>
  \<open>generateMockData\<close> of \<open>RealStockChart.tsx\<close>. The field \<open>range\<close> of a
  configuration is named \<open>range_of\<close>.
\<close>

record StockConfig =
  base :: real
  range_of :: "real \<times> real"
  volatility :: real
  trend :: real

definition stockConfigs :: "string \<rightharpoonup> StockConfig" where
  "stockConfigs =
     [''TMDX'' \<mapsto> \<lparr>base = 117, range_of = (80, 180), volatility = 45 / 1000, trend = 1 / 1000\<rparr>,
      ''AAPL'' \<mapsto> \<lparr>base = 180, range_of = (150, 200), volatility = 2 / 100, trend = 1 / 1000\<rparr>,
      ''TSLA'' \<mapsto> \<lparr>base = 250, range_of = (180, 350), volatility = 45 / 1000, trend = 2 / 1000\<rparr>,
      ''default'' \<mapsto> \<lparr>base = 100, range_of = (80, 130), volatility = 25 / 1000, trend = 0\<rparr>]"

text \<open>
  The table is an object literal, read with
  \<open>stockConfigs[symbol] || stockConfigs['default']\<close>. For a symbol that is none of its
  four keys the read gives \<open>undefined\<close> and the default is taken, unless the symbol
  names a property that every object inherits from \<open>Object.prototype\<close>: the read then
  gives that property, a function or an object, which is not \<open>undefined\<close> and is no
  configuration.
\<close>

definition inherited_keys :: "string list" where
  "inherited_keys =
     [''constructor'', ''hasOwnProperty'', ''isPrototypeOf'', ''propertyIsEnumerable'',
      ''toLocaleString'', ''toString'', ''valueOf'', ''__proto__'', ''__defineGetter__'',
      ''__defineSetter__'', ''__lookupGetter__'', ''__lookupSetter__'']"

datatype config_value = Config StockConfig | NotAConfig

definition config_of :: "string \<Rightarrow> config_value" where
  "config_of symbol =
     (case stockConfigs symbol of
        Some config \<Rightarrow> Config config
      | None \<Rightarrow>
          if symbol \<in> set inherited_keys then NotAConfig
          else Config \<lparr>base = 100, range_of = (80, 130), volatility = 25 / 1000, trend = 0\<rparr>)"

text \<open>
  The generator draws from \<open>Math.random()\<close>. The source of randomness is a parameter:
  \<open>rnd k\<close> is the result of the call number \<open>k\<close> (from 0) made by one run of the
  generator; each result lies in \<open>[0, 1)\<close>. \<open>today\<close> is the day number of \<open>new Date()\<close>
  (the local time zone is taken to be UTC).

  One pass of the loop body, for the loop variable \<open>i\<close>, with \<open>k\<close> calls of
  \<open>Math.random()\<close> made before it and the running price \<open>currentPrice\<close>. It returns the
  point pushed and the price carried to the next pass (the unrounded close). The pass
  makes seven calls, in the order of the source.
\<close>

definition mockDay ::
  "string \<Rightarrow> StockConfig \<Rightarrow> int \<Rightarrow> (nat \<Rightarrow> real) \<Rightarrow> nat \<Rightarrow> nat \<Rightarrow> real \<Rightarrow> StockData \<times> real" where
  "mockDay symbol config today rnd i k currentPrice =
     (let cyclicalTrend = sin (real i / 15) * (5 / 1000);
          randomWalk = (rnd k - 1 / 2) * volatility config * 2;
          momentum = (rnd (k + 1) - 1 / 2) * (15 / 1000);
          reversion = ((base config - currentPrice) / base config) * (5 / 1000);
          totalChange = trend config + cyclicalTrend + randomWalk + momentum + reversion;
          currentPrice = currentPrice * (1 + totalChange);
          currentPrice = max (fst (range_of config)) (min (snd (range_of config)) currentPrice);
          opn = currentPrice;
          dayRange = volatility config * (3 / 10 + rnd (k + 2) * (7 / 10));
          dailyDirection = rnd (k + 3) - 1 / 2;
          cls = opn * (1 + dailyDirection * dayRange);
          maxPrice = max opn cls;
          minPrice = min opn cls;
          hi = maxPrice * (1 + rnd (k + 4) * (2 / 100));
          lo = minPrice * (1 - rnd (k + 5) * (2 / 100));
          priceChange = \<bar>(cls - opn) / opn\<bar>;
          baseVolume = (if symbol = ''TMDX'' then 400000 else 1000000 :: real);
          vol = \<lfloor>baseVolume * (1 + priceChange * 8) * (1 / 2 + rnd (k + 6))\<rfloor>
      in (\<lparr>date = today - int i, open_price = toFixed2 opn, high = toFixed2 hi,
           low = toFixed2 lo, close = toFixed2 cls, volume = of_int vol\<rparr>, cls))"

text \<open>The loop \<open>for (let i = days; i >= 0; i--)\<close>, from the pass for \<open>i\<close> on.\<close>

fun mockLoop ::
  "string \<Rightarrow> StockConfig \<Rightarrow> int \<Rightarrow> (nat \<Rightarrow> real) \<Rightarrow> nat \<Rightarrow> nat \<Rightarrow> real \<Rightarrow> StockData list" where
  "mockLoop symbol config today rnd 0 k currentPrice =
     [fst (mockDay symbol config today rnd 0 k currentPrice)]"
| "mockLoop symbol config today rnd (Suc i) k currentPrice =
     fst (mockDay symbol config today rnd (Suc i) k currentPrice) #
     mockLoop symbol config today rnd i (k + 7)
       (snd (mockDay symbol config today rnd (Suc i) k currentPrice))"

text \<open>
  A time, in milliseconds from 1970-01-01, that \<open>toISOString()\<close> accepts. The date of
  the pass for \<open>i\<close> is \<open>new Date()\<close> moved back by \<open>i\<close> days; when its time is out of
  this range the pass raises a \<open>RangeError\<close>.
\<close>

definition time_in_range :: "int \<Rightarrow> bool" where
  "time_in_range t \<longleftrightarrow> \<bar>t\<bar> \<le> 8640000000000000"

definition dates_in_range :: "int \<Rightarrow> nat \<Rightarrow> bool" where
  "dates_in_range now days \<longleftrightarrow>
     list_all (\<lambda>i. time_in_range (now - int i * 86400000)) [0..<Suc days]"

text \<open>
  \<open>generateMockData(symbol, days)\<close>, with the time \<open>now\<close> of \<open>new Date()\<close>. The
  function raises in two cases, and nothing of a run that raises is kept. When the value
  read from the table is no configuration, its \<open>range\<close> is \<open>undefined\<close> and the first
  pass raises a \<open>TypeError\<close> at \<open>config.range[0]\<close>. When the date of a pass is out of
  range, that pass raises a \<open>RangeError\<close> where it pushes its point.
\<close>

definition generateMockData ::
  "string \<Rightarrow> nat \<Rightarrow> int \<Rightarrow> (nat \<Rightarrow> real) \<Rightarrow> exn + StockData list" where
  "generateMockData symbol days now rnd =
     (case config_of symbol of
        NotAConfig \<Rightarrow> Inl TypeError
      | Config config \<Rightarrow>
          if dates_in_range now days then
            (let currentPrice = base config + (rnd 0 - 1 / 2) * 15
             in Inr (mockLoop symbol config (now div 86400000) rnd days 1 currentPrice))
          else Inl RangeError)"

text \<open>
  \<open>generateMockData\<close> of \<open>StockChart.tsx\<close>: a walk with a fixed volatility and a floor
  of 10 on the price; five calls of \<open>Math.random()\<close> in each pass.
\<close>

definition simpleDay :: "int \<Rightarrow> (nat \<Rightarrow> real) \<Rightarrow> nat \<Rightarrow> nat \<Rightarrow> real \<Rightarrow> StockData \<times> real" where
  "simpleDay today rnd i k basePrice =
     (let volatility = (2 / 100 :: real);
          change = (rnd k - 1 / 2) * 2 * volatility;
          basePrice = basePrice * (1 + change);
          basePrice = max basePrice 10;
          opn = basePrice;
          cls = opn * (1 + (rnd (k + 1) - 1 / 2) * (2 / 100));
          hi = max opn cls * (1 + rnd (k + 2) * (1 / 100));
          lo = min opn cls * (1 - rnd (k + 3) * (1 / 100));
          vol = \<lfloor>rnd (k + 4) * 1000000\<rfloor> + 100000
      in (\<lparr>date = today - int i, open_price = toFixed2 opn, high = toFixed2 hi,
           low = toFixed2 lo, close = toFixed2 cls, volume = of_int vol\<rparr>, cls))"

fun simpleLoop :: "int \<Rightarrow> (nat \<Rightarrow> real) \<Rightarrow> nat \<Rightarrow> nat \<Rightarrow> real \<Rightarrow> StockData list" where
  "simpleLoop today rnd 0 k basePrice = [fst (simpleDay today rnd 0 k basePrice)]"
| "simpleLoop today rnd (Suc i) k basePrice =
     fst (simpleDay today rnd (Suc i) k basePrice) #
     simpleLoop today rnd i (k + 5) (snd (simpleDay today rnd (Suc i) k basePrice))"

definition generateMockData_StockChart :: "nat \<Rightarrow> int \<Rightarrow> (nat \<Rightarrow> real) \<Rightarrow> exn + StockData list" where
  "generateMockData_StockChart days now rnd =
     (if dates_in_range now days
      then Inr (simpleLoop (now div 86400000) rnd days 1 (50 + rnd 0 * 100))
      else Inl RangeError)"

text \<open>The invariants of a point of the series model that the generators are to meet.\<close>

definition ohlc_ok :: "StockData \<Rightarrow> bool" where
  "ohlc_ok d \<longleftrightarrow>
     max (open_price d) (close d) \<le> high d \<and> low d \<le> min (open_price d) (close d) \<and>
     0 \<le> volume d"

section \<open>Data acquisition\<close>

text \<open>
  The answer of the network to the one request a fetch function makes. A cell of a quote
  array is a number or \<open>null\<close> (\<open>None\<close>; an index past the end of an array reads
  \<open>undefined\<close>, \<open>None\<close> as well). Timestamps are whole seconds, within the range of
  \<open>Date\<close>. The body of a response is one of
  \<^item> \<open>NotJson\<close>: no JSON text;
  \<^item> \<open>JsonNull\<close>: the JSON text \<open>null\<close>, on which the read of \<open>data.chart\<close> raises;
  \<^item> \<open>NoResult\<close>: another JSON value without \<open>chart.result[0]\<close>;
  \<^item> \<open>NoQuoteArray\<close>: a \<open>chart.result[0]\<close> without the array \<open>indicators.quote\<close>
    (the object \<open>indicators\<close> or its member \<open>quote\<close> is missing);
  \<^item> \<open>Result\<close>: a \<open>chart.result[0]\<close> with that array; \<open>r_quote\<close> is its first
    element, \<open>None\<close> when the array is empty, and \<open>r_timestamp\<close> the array
    \<open>timestamp\<close>, which can be missing, as can each array of the quote.
\<close>

type_synonym cell = "real option"

record Quote =
  q_open :: "cell list option"
  q_high :: "cell list option"
  q_low :: "cell list option"
  q_close :: "cell list option"
  q_volume :: "cell list option"

record ChartResult =
  r_timestamp :: "int list option"
  r_quote :: "Quote option"

datatype body = NotJson | JsonNull | NoResult | NoQuoteArray | Result ChartResult

datatype reply = Rejected | Response nat body

definition ok :: "nat \<Rightarrow> bool" where
  "ok status \<longleftrightarrow> 200 \<le> status \<and> status \<le> 299"

definition cell_at :: "cell list \<Rightarrow> nat \<Rightarrow> cell" where
  "cell_at xs i = (if i < length xs then xs ! i else None)"

text \<open>\<open>c || 0\<close> for a cell: \<open>null\<close>, \<open>undefined\<close> and 0 give 0.\<close>

definition or_zero :: "cell \<Rightarrow> real" where
  "or_zero c = (case c of None \<Rightarrow> 0 | Some v \<Rightarrow> v)"

text \<open>The calendar day of \<open>new Date(timestamp * 1000)\<close> in UTC.\<close>

definition day_of :: "int \<Rightarrow> int" where
  "day_of timestamp = timestamp div 86400"

text \<open>
  \<open>fetchRealStockData\<close> of \<open>RealStockChart.tsx\<close>, as a function of the reply. Its
  \<open>catch\<close> logs and throws the error again. \<open>result.indicators.quote[0]\<close> is read
  before \<open>timestamps.map\<close> is called. The callback of \<open>timestamps.map\<close> reads the
  five arrays of \<open>quotes\<close>; with no timestamp it is never called. The returned array can
  be empty.
\<close>

definition fetchRealStockData :: "reply \<Rightarrow> exn + StockData list" where
  "fetchRealStockData reply =
     (case reply of
        Rejected \<Rightarrow> Inl TypeError
      | Response status body \<Rightarrow>
          if \<not> ok status then Inl (Error ApiRequestFailed)
          else (case body of
             NotJson \<Rightarrow> Inl SyntaxError
           | JsonNull \<Rightarrow> Inl TypeError
           | NoResult \<Rightarrow> Inl (Error CannotGetStockData)
           | NoQuoteArray \<Rightarrow> Inl TypeError
           | Result result \<Rightarrow>
               (case r_timestamp result of
                  None \<Rightarrow> Inl TypeError
                | Some timestamps \<Rightarrow>
                    if timestamps = [] then Inr []
                    else (case r_quote result of
                       None \<Rightarrow> Inl TypeError
                     | Some quotes \<Rightarrow>
                         (case (q_open quotes, q_high quotes, q_low quotes, q_close quotes,
                                q_volume quotes) of
                            (Some opens, Some highs, Some lows, Some closes, Some volumes) \<Rightarrow>
                              Inr (filter (\<lambda>item. open_price item > 0 \<and> close item > 0)
                                (map (\<lambda>(index, timestamp).
                                    \<lparr>date = day_of timestamp,
                                     open_price = toFixed2 (or_zero (cell_at opens index)),
                                     high = toFixed2 (or_zero (cell_at highs index)),
                                     low = toFixed2 (or_zero (cell_at lows index)),
                                     close = toFixed2 (or_zero (cell_at closes index)),
                                     volume = or_zero (cell_at volumes index)\<rparr>)
                                  (enumerate 0 timestamps)))
                          | _ \<Rightarrow> Inl TypeError)))))"

text \<open>
  \<open>fetchYahooFinanceData\<close> of \<open>YahooFinanceChart.tsx\<close>. \<open>opt_at a i\<close> is \<open>a?.[i]\<close>.
  The loop skips an index when \<open>!open || !high || !low || !close || open <= 0 ||
  close <= 0\<close>; \<open>!c\<close> holds of \<open>null\<close>, \<open>undefined\<close> and 0. The returned array is
  sorted by the comparator \<open>new Date(a.date).getTime() - new Date(b.date).getTime()\<close>,
  that is by day; the sort of an array is stable.
\<close>

definition opt_at :: "cell list option \<Rightarrow> nat \<Rightarrow> cell" where
  "opt_at a i = (case a of None \<Rightarrow> None | Some xs \<Rightarrow> cell_at xs i)"

fun yahooLoop :: "Quote \<Rightarrow> int list \<Rightarrow> nat \<Rightarrow> StockData list" where
  "yahooLoop quotes [] i = []"
| "yahooLoop quotes (timestamp # timestamps) i =
     (case (opt_at (q_open quotes) i, opt_at (q_high quotes) i, opt_at (q_low quotes) i,
            opt_at (q_close quotes) i) of
        (Some opn, Some hi, Some lo, Some cls) \<Rightarrow>
          if opn = 0 \<or> hi = 0 \<or> lo = 0 \<or> cls = 0 \<or> opn \<le> 0 \<or> cls \<le> 0
          then yahooLoop quotes timestamps (i + 1)
          else \<lparr>date = day_of timestamp, open_price = toFixed2 opn, high = toFixed2 hi,
                 low = toFixed2 lo, close = toFixed2 cls,
                 volume = or_zero (opt_at (q_volume quotes) i)\<rparr> #
               yahooLoop quotes timestamps (i + 1)
      | _ \<Rightarrow> yahooLoop quotes timestamps (i + 1))"

definition fetchYahooFinanceData :: "reply \<Rightarrow> exn + StockData list" where
  "fetchYahooFinanceData reply =
     (case reply of
        Rejected \<Rightarrow> Inl TypeError
      | Response status body \<Rightarrow>
          if \<not> ok status then Inl (Error (HttpStatus status))
          else (case body of
             NotJson \<Rightarrow> Inl SyntaxError
           | JsonNull \<Rightarrow> Inl TypeError
           | NoResult \<Rightarrow> Inl (Error InvalidDataFormat)
           | NoQuoteArray \<Rightarrow> Inl (Error StockDataEmpty)
           | Result result \<Rightarrow>
               (let timestamps = (case r_timestamp result of None \<Rightarrow> [] | Some ts \<Rightarrow> ts)
                in case r_quote result of
                     None \<Rightarrow> Inl (Error StockDataEmpty)
                   | Some quotes \<Rightarrow>
                       if timestamps = [] then Inl (Error StockDataEmpty)
                       else (let stockData = yahooLoop quotes timestamps 0
                             in if stockData = [] then Inl (Error NoValidStockData)
                                else Inr (sort_key date stockData)))))"

text \<open>
  The state of the component \<open>RealStockChart\<close> and its \<open>loadData\<close>. The reply is the
  answer to the request of \<open>fetchRealStockData\<close>, read only when \<open>useRealData\<close> is set.
  The inner \<open>catch\<close> takes what \<open>fetchRealStockData\<close> raises and calls the generator.
  What the generator raises, there or without real data, reaches the outer \<open>catch\<close>,
  which sets \<open>DataLoadFailed\<close>; the setters of the data, of the data source and of the
  warning have then not run. \<open>finally\<close> clears \<open>loading\<close>.
\<close>

datatype source = mock | api

record Component =
  stockData :: "StockData list"
  loading :: bool
  error :: "message option"
  dataSource :: source
  chartState :: ChartState

definition loadData ::
  "string \<Rightarrow> nat \<Rightarrow> bool \<Rightarrow> reply \<Rightarrow> int \<Rightarrow> (nat \<Rightarrow> real) \<Rightarrow> Component \<Rightarrow> Component" where
  "loadData symbol days useRealData reply now rnd c =
     (let c = c\<lparr>loading := True, error := None\<rparr>;
          attempt =
            (if useRealData then
               (case fetchRealStockData reply of
                  Inr data \<Rightarrow> Inr (data, c\<lparr>dataSource := api\<rparr>)
                | Inl apiError \<Rightarrow>
                    (case generateMockData symbol days now rnd of
                       Inr data \<Rightarrow>
                         Inr (data, c\<lparr>dataSource := mock,
                                      error := Some RealDataFailedShowingMock\<rparr>)
                     | Inl err \<Rightarrow> Inl err))
             else (case generateMockData symbol days now rnd of
                     Inr data \<Rightarrow> Inr (data, c\<lparr>dataSource := mock\<rparr>)
                   | Inl err \<Rightarrow> Inl err));
          c = (case attempt of
                 Inr (data, c) \<Rightarrow>
                   c\<lparr>stockData := data,
                     chartState := (chartState c)\<lparr>endIndex := int (length data),
                                                   viewportEnd := int (length data)\<rparr>\<rparr>
               | Inl err \<Rightarrow> c\<lparr>error := Some DataLoadFailed\<rparr>)
      in c\<lparr>loading := False\<rparr>)"

text \<open>
  What the component shows: the spinner while loading, otherwise the panel with the chart,
  labelled with the data source; a message in \<open>error\<close> is shown in the header of the
  panel, after the count of days. The component has no other screen.
\<close>

datatype view = Spinner | ChartPanel source "message option"

definition render :: "Component \<Rightarrow> view" where
  "render c = (if loading c then Spinner else ChartPanel (dataSource c) (error c))"

section \<open>Rendering\<close>

text \<open>
  The calls on the canvas context that draw the candles: for each visible point the wick
  (\<open>moveTo(x, highY)\<close>, \<open>lineTo(x, lowY)\<close>) and the body (\<open>fillRect\<close>). The background,
  the grid, the labels, the frame and the overlay do not depend on the price scale and are
  left out, as are the styles.
\<close>

datatype cmd =
    MoveTo jsnum jsnum
  | LineTo jsnum jsnum
  | FillRect jsnum jsnum jsnum jsnum

text \<open>\<open>xs.slice(start, end)\<close>; a negative index counts from the end of the array.\<close>

definition slice :: "'a list \<Rightarrow> int \<Rightarrow> int \<Rightarrow> 'a list" where
  "slice xs start finish =
     (let len = int (length xs);
          k = (if start < 0 then max (len + start) 0 else min start len);
          final = (if finish < 0 then max (len + finish) 0 else min finish len)
      in take (nat (final - k)) (drop (nat k) xs))"

text \<open>
  The callback of \<open>visibleData.forEach\<close>: the calls for the point \<open>item\<close> at position
  \<open>index\<close> of \<open>count\<close> visible points. The other parameters are the constants of
  \<open>drawChart\<close> that the callback reads.
\<close>

definition candle :: "real \<Rightarrow> real \<Rightarrow> jsnum \<Rightarrow> real \<Rightarrow> nat \<Rightarrow> nat \<Rightarrow> StockData \<Rightarrow> cmd list" where
  "candle chartWidth maxPrice priceScale candleWidth count index item =
     (let padding = (60 :: real);
          x = jadd (Fin padding) (jdiv (Fin (chartWidth * real index)) (Fin (real count - 1)));
          openY = jadd (Fin padding) (jmul (Fin (maxPrice - open_price item)) priceScale);
          closeY = jadd (Fin padding) (jmul (Fin (maxPrice - close item)) priceScale);
          highY = jadd (Fin padding) (jmul (Fin (maxPrice - high item)) priceScale);
          lowY = jadd (Fin padding) (jmul (Fin (maxPrice - low item)) priceScale);
          bodyHeight = jabs (jsub closeY openY);
          bodyY = jmin openY closeY
      in [MoveTo x highY, LineTo x lowY,
          if jless bodyHeight (Fin 1)
          then FillRect (jsub x (Fin (candleWidth / 2))) bodyY (Fin candleWidth) (Fin 1)
          else FillRect (jsub x (Fin (candleWidth / 2))) bodyY (Fin candleWidth) bodyHeight])"

text \<open>
  The candles of a non-empty visible slice on a canvas of the given width and height
  (\<open>drawChart\<close> of \<open>RealStockChart.tsx\<close>, from \<open>const prices\<close> on).
\<close>

definition drawCandles :: "nat \<Rightarrow> nat \<Rightarrow> StockData list \<Rightarrow> cmd list" where
  "drawCandles width height visibleData =
     (let padding = (60 :: real);
          chartWidth = real width - padding * 2;
          chartHeight = real height - padding * 2;
          prices = concat (map (\<lambda>d. [high d, low d]) visibleData);
          minPrice = Min (set prices);
          maxPrice = Max (set prices);
          priceRange = maxPrice - minPrice;
          priceScale = jdiv (Fin chartHeight) (Fin priceRange);
          candleWidth = max 2 (chartWidth / real (length visibleData) * (8 / 10))
      in concat (map (\<lambda>(index, item).
                   candle chartWidth maxPrice priceScale candleWidth (length visibleData) index item)
           (enumerate 0 visibleData)))"

text \<open>
  \<open>drawChart\<close>: nothing is drawn without a canvas (\<open>None\<close>; otherwise its width and
  height), without data, or when the visible slice is empty. A mounted canvas is taken to
  give its 2d context.
\<close>

definition drawChart :: "(nat \<times> nat) option \<Rightarrow> Component \<Rightarrow> cmd list" where
  "drawChart canvas c =
     (case canvas of
        None \<Rightarrow> []
      | Some (width, height) \<Rightarrow>
          if stockData c = [] then []
          else (let visibleData = slice (stockData c) (viewportStart (chartState c))
                                    (viewportEnd (chartState c))
                in if visibleData = [] then [] else drawCandles width height visibleData))"

text \<open>The y coordinate of a call, and a call all of whose coordinates are finite numbers.\<close>

fun y_of :: "cmd \<Rightarrow> jsnum" where
  "y_of (MoveTo x y) = y"
| "y_of (LineTo x y) = y"
| "y_of (FillRect x y w h) = y"

fun finite_cmd :: "cmd \<Rightarrow> bool" where
  "finite_cmd (MoveTo x y) = (is_finite x \<and> is_finite y)"
| "finite_cmd (LineTo x y) = (is_finite x \<and> is_finite y)"
| "finite_cmd (FillRect x y w h) = (is_finite x \<and> is_finite y \<and> is_finite w \<and> is_finite h)"

section \<open>Properties of the rounding\<close>

text \<open>
  \<open>exponent\<close> is the binary exponent, and a finite result of \<open>to_double\<close> is a
  multiple of the spacing \<open>2^q\<close> at most half a spacing away from its argument.
\<close>

lemma floor_log2_bounds:
  "0 < n \<Longrightarrow> 2 ^ floor_log2 n \<le> n \<and> n < 2 ^ Suc (floor_log2 n)"
proof (induction n rule: floor_log2.induct)
  case (1 n)
  show ?case
  proof (cases "n < 2")
    case True
    then have "n = 1" using "1.prems" by simp
    then show ?thesis by (simp add: floor_log2.simps)
  next
    case False
    then have "0 < n div 2" by simp
    from "1.IH" [OF False this]
    have "2 ^ floor_log2 (n div 2) \<le> n div 2" "n div 2 < 2 ^ Suc (floor_log2 (n div 2))"
      by simp_all
    then have "2 * 2 ^ floor_log2 (n div 2) \<le> n" "n < 2 * 2 ^ Suc (floor_log2 (n div 2))"
      by linarith+
    then show ?thesis using False by (simp add: floor_log2.simps [of n])
  qed
qed

lemma pow2_nonneg: "pow2 (int k) = 2 ^ k"
  by (simp add: pow2_def)

lemma pow2_neg: "pow2 (- int k) = 1 / 2 ^ k"
proof (cases "k = 0")
  case True
  then show ?thesis by (simp add: pow2_def)
next
  case False
  then have "\<not> 0 \<le> - int k" by simp
  then show ?thesis by (simp add: pow2_def)
qed

lemma exponent_bounds:
  assumes "x \<noteq> 0"
  shows "pow2 (exponent x) \<le> \<bar>x\<bar> \<and> \<bar>x\<bar> < pow2 (exponent x + 1)"
proof (cases "1 \<le> \<bar>x\<bar>")
  case True
  define n where "n = nat \<lfloor>\<bar>x\<bar>\<rfloor>"
  have n: "0 < n" "real n \<le> \<bar>x\<bar>" "\<bar>x\<bar> < real n + 1"
    using True unfolding n_def by (simp_all add: le_floor_iff)
  from floor_log2_bounds [OF n(1)]
  have "(2::nat) ^ floor_log2 n \<le> n" "n + 1 \<le> 2 ^ Suc (floor_log2 n)" by simp_all
  then have "real (2 ^ floor_log2 n) \<le> real n" "real (n + 1) \<le> real (2 ^ Suc (floor_log2 n))"
    by (simp_all only: of_nat_le_iff)
  then have "(2::real) ^ floor_log2 n \<le> real n" "real n + 1 \<le> 2 ^ Suc (floor_log2 n)"
    by simp_all
  then have "(2::real) ^ floor_log2 n \<le> \<bar>x\<bar>" "\<bar>x\<bar> < 2 ^ Suc (floor_log2 n)"
    using n by linarith+
  moreover have "exponent x = int (floor_log2 n)" using True by (simp add: exponent_def n_def)
  moreover have "int (floor_log2 n) + 1 = int (Suc (floor_log2 n))" by simp
  ultimately show ?thesis by (simp only: pow2_nonneg)
next
  case False
  define y where "y = 1 / \<bar>x\<bar>"
  have y: "1 < y" "0 < \<bar>x\<bar>" using False assms by (simp_all add: y_def)
  define n where "n = nat (\<lceil>y\<rceil> - 1)"
  have "2 \<le> \<lceil>y\<rceil>" using y(1) by (simp add: le_ceiling_iff)
  then have n: "0 < n" "real n < y" "y \<le> real n + 1"
    unfolding n_def by (simp_all add: ceiling_le_iff less_ceiling_iff) linarith+
  let ?k = "floor_log2 n"
  from floor_log2_bounds [OF n(1)]
  have "(2::nat) ^ ?k \<le> n" "n + 1 \<le> 2 ^ Suc ?k" by simp_all
  then have "real (2 ^ ?k) \<le> real n" "real (n + 1) \<le> real (2 ^ Suc ?k)"
    by (simp_all only: of_nat_le_iff)
  then have "(2::real) ^ ?k \<le> real n" "real n + 1 \<le> 2 ^ Suc ?k"
    by simp_all
  then have b: "(2::real) ^ ?k < y" "y \<le> 2 ^ Suc ?k" using n by linarith+
  have x: "\<bar>x\<bar> = 1 / y" using y by (simp add: y_def)
  have lo: "1 / 2 ^ Suc ?k \<le> \<bar>x\<bar>" unfolding x using b(2) y(1) by (simp add: frac_le)
  have hi: "\<bar>x\<bar> < 1 / 2 ^ ?k" unfolding x using b(1) by (simp add: frac_less2)
  have e: "exponent x = - int (Suc ?k)" "exponent x + 1 = - int ?k"
    using False by (simp_all add: exponent_def n_def y_def)
  have "pow2 (- int (Suc ?k)) \<le> \<bar>x\<bar>" "\<bar>x\<bar> < pow2 (- int ?k)"
    using lo hi by (simp_all only: pow2_neg)
  then show ?thesis unfolding e by simp
qed

lemma round_even_nearest: "\<bar>of_int (round_even x) - x\<bar> \<le> 1 / 2"
proof -
  have "of_int \<lfloor>x\<rfloor> \<le> x" "x < of_int \<lfloor>x\<rfloor> + 1" by linarith+
  then show ?thesis by (auto simp: round_even_def Let_def)
qed


lemma to_double_nearest:
  assumes "to_double x = Fin y"
  shows "\<exists>m. y = of_int m * pow2 (max (exponent x) (- 1022) - 52) \<and>
             \<bar>y - x\<bar> \<le> pow2 (max (exponent x) (- 1022) - 52) / 2"
proof (cases "x = 0")
  case True
  then show ?thesis using assms by (auto simp: to_double_def intro: exI [of _ 0] simp: pow2_def)
next
  case False
  define q where "q = max (exponent x) (- 1022) - 52"
  have p: "0 < pow2 q" by (simp add: pow2_def)
  from assms False have y: "y = of_int (round_even (x / pow2 q)) * pow2 q"
    by (simp add: to_double_def Let_def q_def inf_of_sign_def split: if_splits)
  have "\<bar>of_int (round_even (x / pow2 q)) - x / pow2 q\<bar> * pow2 q \<le> 1 / 2 * pow2 q"
    using round_even_nearest [of "x / pow2 q"] p by (intro mult_right_mono) simp_all
  moreover have "\<bar>of_int (round_even (x / pow2 q)) - x / pow2 q\<bar> * pow2 q = \<bar>y - x\<bar>"
  proof -
    have "\<bar>of_int (round_even (x / pow2 q)) - x / pow2 q\<bar> * pow2 q =
        \<bar>(of_int (round_even (x / pow2 q)) - x / pow2 q) * pow2 q\<bar>"
      using p by (simp add: abs_mult)
    also have "(of_int (round_even (x / pow2 q)) - x / pow2 q) * pow2 q = y - x"
      using p by (simp add: y left_diff_distrib)
    finally show ?thesis .
  qed
  ultimately have "\<bar>y - x\<bar> \<le> pow2 q / 2" by simp
  then show ?thesis using y unfolding q_def by blast
qed

section \<open>Properties of the viewport controller\<close>

subsection \<open>Floors as integer division\<close>

lemma floor_scaled:
  fixes cv :: int
  shows "\<lfloor>(of_int cv :: real) * (numeral p / numeral q)\<rfloor> = (cv * numeral p) div numeral q"
proof -
  have "(of_int cv :: real) * (numeral p / numeral q) = of_int (cv * numeral p) / of_int (numeral q)"
    by simp
  then show ?thesis by (simp only: floor_divide_of_int_eq)
qed

lemma floor_center:
  fixes a b nv :: int
  shows "\<lfloor>(of_int (a + b) :: real) / 2 - of_int nv / 2\<rfloor> = (a + b - nv) div 2"
proof -
  have "(of_int (a + b) :: real) / 2 - of_int nv / 2 = of_int (a + b - nv) / of_int 2"
    by (simp add: diff_divide_distrib)
  then show ?thesis by (simp only: floor_divide_of_int_eq)
qed

subsection \<open>The invariant\<close>

text \<open>
  Re-centring a window of any admissible size keeps the invariant. When the re-centred
  window would pass the end of the series, the end is cut at the length; the start has
  then not moved to the right, so the window is no smaller than before.
\<close>

lemma recenter_inv:
  fixes nv :: int
  assumes inv: "viewport_inv len s"
    and nv: "10 \<le> nv" "nv \<le> int len"
  defines "ns \<equiv> max 0 ((viewportStart s + viewportEnd s - nv) div 2)"
  shows "viewport_inv len (s\<lparr>viewportStart := ns, viewportEnd := min (int len) (ns + nv)\<rparr>)"
proof -
  have ns0: "0 \<le> ns" by (simp add: ns_def)
  from inv have i: "0 \<le> viewportStart s" "viewportEnd s \<le> int len"
    "10 \<le> viewportEnd s - viewportStart s"
    by (simp_all add: viewport_inv_def)
  show ?thesis
  proof (cases "ns + nv \<le> int len")
    case True
    then show ?thesis using ns0 nv by (simp add: viewport_inv_def)
  next
    case False
    then have "viewportEnd s < ns + nv" using i by linarith
    then have "ns \<le> viewportStart s"
      using i nv unfolding ns_def by (simp add: max_def split: if_splits; linarith)
    then show ?thesis using False ns0 i by (simp add: viewport_inv_def)
  qed
qed

lemma handleWheel_inv:
  assumes "10 \<le> len" "viewport_inv len s"
  shows "viewport_inv len (handleWheel len deltaY s)"
proof -
  define nv where "nv = min (max 10 (int len))
    (max 10 \<lfloor>of_int (viewportEnd s - viewportStart s) *
       (if deltaY > 0 then 11 / 10 else 9 / 10 :: real)\<rfloor>)"
  have nv: "10 \<le> nv" "nv \<le> int len" using assms(1) by (simp_all add: nv_def)
  have "handleWheel len deltaY s = s \<or>
    handleWheel len deltaY s =
      s\<lparr>viewportStart := max 0 ((viewportStart s + viewportEnd s - nv) div 2),
        viewportEnd := min (int len) (max 0 ((viewportStart s + viewportEnd s - nv) div 2) + nv)\<rparr>"
    unfolding handleWheel_def Let_def nv_def [symmetric] floor_center by simp
  then show ?thesis using recenter_inv [OF assms(2) nv] assms(2) by auto
qed

lemma zoomIn_inv:
  assumes "10 \<le> len" "viewport_inv len s"
  shows "viewport_inv len (zoomIn len s)"
proof -
  define nv where "nv = max 10 \<lfloor>(of_int (viewportEnd s - viewportStart s) :: real) * (8 / 10)\<rfloor>"
  have "viewportEnd s - viewportStart s \<le> int len" using assms(2) by (simp add: viewport_inv_def)
  then have nv: "10 \<le> nv" "nv \<le> int len"
    using assms(1) unfolding nv_def floor_scaled by simp_all
  have "zoomIn len s =
      s\<lparr>viewportStart := max 0 ((viewportStart s + viewportEnd s - nv) div 2),
        viewportEnd := min (int len) (max 0 ((viewportStart s + viewportEnd s - nv) div 2) + nv)\<rparr>"
    unfolding zoomIn_def Let_def nv_def [symmetric] floor_center by simp
  then show ?thesis using recenter_inv [OF assms(2) nv] by simp
qed

lemma zoomOut_inv:
  assumes "10 \<le> len" "viewport_inv len s"
  shows "viewport_inv len (zoomOut len s)"
proof -
  define nv where "nv = min (int len) \<lfloor>(of_int (viewportEnd s - viewportStart s) :: real) * (12 / 10)\<rfloor>"
  have "10 \<le> viewportEnd s - viewportStart s" using assms(2) by (simp add: viewport_inv_def)
  then have nv: "10 \<le> nv" "nv \<le> int len"
    using assms(1) unfolding nv_def floor_scaled by simp_all
  have "zoomOut len s =
      s\<lparr>viewportStart := max 0 ((viewportStart s + viewportEnd s - nv) div 2),
        viewportEnd := min (int len) (max 0 ((viewportStart s + viewportEnd s - nv) div 2) + nv)\<rparr>"
    unfolding zoomOut_def Let_def nv_def [symmetric] floor_center by simp
  then show ?thesis using recenter_inv [OF assms(2) nv] by simp
qed

text \<open>A drag commits only a window of the old size that lies inside the series.\<close>

lemma handleMouseMove_inv:
  assumes "viewport_inv len s"
  shows "viewport_inv len (handleMouseMove len clientX canvas s)"
  using assms
  by (auto simp: handleMouseMove_def Let_def viewport_inv_def split: option.splits)

lemma handle_inv:
  assumes "10 \<le> len" "viewport_inv len s"
  shows "viewport_inv len (handle len s e)"
proof (cases e)
  case (Wheel deltaY)
  then show ?thesis using assms by (simp add: handleWheel_inv)
next
  case (MouseDown clientX)
  then show ?thesis using assms by (simp add: handleMouseDown_def viewport_inv_def)
next
  case (MouseMove clientX canvas)
  then show ?thesis using assms by (simp add: handleMouseMove_inv)
next
  case MouseUp
  then show ?thesis using assms by (simp add: handleMouseUp_def viewport_inv_def)
next
  case ZoomIn
  then show ?thesis using assms by (simp add: zoomIn_inv)
next
  case ZoomOut
  then show ?thesis using assms by (simp add: zoomOut_inv)
next
  case ResetView
  then show ?thesis using assms by (simp add: resetView_def viewport_inv_def)
qed

lemma run_inv:
  assumes "10 \<le> len"
  shows "viewport_inv len s \<Longrightarrow> viewport_inv len (run len s es)"
  unfolding run_def
  by (induction es arbitrary: s) (simp_all add: handle_inv [OF assms])

text \<open>
  C1. For a series of at least 10 points and any finite sequence of events (wheel, the
  zoom buttons, mouse down, move and up, reset) handled from a chart state showing the
  full range \<open>[0, length]\<close>, the viewport after each event (after the first \<open>n\<close> events,
  for every \<open>n\<close>) satisfies \<open>0 \<le> start < end \<le> length\<close> and
  \<open>10 \<le> end - start \<le> length\<close>.
\<close>

theorem viewport_invariant:
  assumes "10 \<le> len" and "viewportStart s0 = 0" and "viewportEnd s0 = int len"
  shows "viewport_inv len (run len s0 (take n es))"
proof -
  have "viewport_inv len s0" using assms by (simp add: viewport_inv_def)
  then show ?thesis by (rule run_inv [OF assms(1)])
qed

theorem viewport_invariant_witness:
  "(10::nat) \<le> 90 \<and>
   viewport_inv 90 (run 90
     \<lparr>startIndex = 0, endIndex = 90, scale = 1, dragStartX = None, isDragging = False,
       viewportStart = 0, viewportEnd = 90\<rparr>
     (take 4 [ZoomIn, MouseDown 100, MouseMove 20 (Some 800), Wheel 1, ResetView]))"
  using viewport_invariant [of 90
     "\<lparr>startIndex = 0, endIndex = 90, scale = 1, dragStartX = None, isDragging = False,
       viewportStart = 0, viewportEnd = 90\<rparr>"
     4 "[ZoomIn, MouseDown 100, MouseMove 20 (Some 800), Wheel 1, ResetView]"]
  by simp

subsection \<open>Wheel zoom\<close>

text \<open>
  C2, as the specification words it, does not describe \<open>handleWheel\<close>. On a series of
  100 points with the viewport \<open>[75, 100]\<close>, a wheel step with positive \<open>deltaY\<close>
  leaves the viewport \<open>[74, 100]\<close>: the size is \<open>Math.floor(25 * 1.1) = 27\<close>, not the
  rounded 28, the start \<open>floor(87.5 - 13.5) = 74\<close> is not pulled back to \<open>length - newSize\<close>,
  and the end is cut at the length, so the window has 26 points. The transition of the
  specification gives \<open>[72, 100]\<close>.
\<close>

theorem handleWheel_not_wheel_spec:
  "(viewportStart (handleWheel 100 1
       \<lparr>startIndex = 0, endIndex = 100, scale = 1, dragStartX = None, isDragging = False,
         viewportStart = 75, viewportEnd = 100\<rparr>),
    viewportEnd (handleWheel 100 1
       \<lparr>startIndex = 0, endIndex = 100, scale = 1, dragStartX = None, isDragging = False,
         viewportStart = 75, viewportEnd = 100\<rparr>)) = (74, 100) \<and>
   wheel_spec 100 1 (75, 100) = (72, 100)"
  by (simp add: handleWheel_def wheel_spec_def clamp_def round_half_up_def Let_def)

text \<open>
  C2, amended. For a series of at least 10 points and a viewport satisfying the
  invariant, \<open>handleWheel\<close> computes \<open>newSize = clamp(floor(size * zoomFactor), 10, length)\<close>
  with \<open>zoomFactor\<close> 1.1 for a positive \<open>deltaY\<close> and 0.9 otherwise. When \<open>newSize\<close> is
  the current size the state is left as it is. Otherwise the start becomes
  \<open>max(0, floor((start + end) / 2 - newSize / 2))\<close> and the end
  \<open>min(length, newStart + newSize)\<close>. The committed window has at most \<open>newSize\<close> points,
  and exactly \<open>newSize\<close> when zooming in or when \<open>newStart + newSize\<close> does not pass the
  length.
\<close>

theorem handleWheel_commits:
  fixes len :: nat and deltaY :: real and s :: ChartState
  defines "cur \<equiv> viewportEnd s - viewportStart s"
  defines "newSize \<equiv> clamp \<lfloor>of_int cur * (if deltaY > 0 then 11 / 10 else 9 / 10 :: real)\<rfloor> 10 (int len)"
  defines "newStart \<equiv> max 0 \<lfloor>(of_int (viewportStart s + viewportEnd s) :: real) / 2 - of_int newSize / 2\<rfloor>"
  defines "s' \<equiv> handleWheel len deltaY s"
  assumes len: "10 \<le> len" and inv: "viewport_inv len s"
  shows "s' = (if newSize = cur then s
               else s\<lparr>viewportStart := newStart, viewportEnd := min (int len) (newStart + newSize)\<rparr>) \<and>
         viewportEnd s' - viewportStart s' \<le> newSize \<and>
         (deltaY \<le> 0 \<or> newStart + newSize \<le> int len \<longrightarrow>
            viewportEnd s' - viewportStart s' = newSize)"
proof -
  have cl: "newSize = min (max 10 (int len)) (max 10 \<lfloor>of_int cur * (if deltaY > 0 then 11 / 10 else 9 / 10 :: real)\<rfloor>)"
  proof -
    have "max 10 (min (int len) x) = min (max 10 (int len)) (max 10 x)" for x :: int
      using len by linarith
    then show ?thesis unfolding newSize_def clamp_def .
  qed
  have eq: "s' = (if newSize = cur then s
               else s\<lparr>viewportStart := newStart, viewportEnd := min (int len) (newStart + newSize)\<rparr>)"
    unfolding s'_def handleWheel_def Let_def cur_def [symmetric] cl [symmetric]
      newStart_def [symmetric] by simp
  from inv have i: "0 \<le> viewportStart s" "viewportEnd s \<le> int len" "10 \<le> cur"
    by (simp_all add: viewport_inv_def cur_def)
  have ns: "newStart = max 0 ((viewportStart s + viewportEnd s - newSize) div 2)"
    unfolding newStart_def floor_center ..
  have le: "viewportEnd s' - viewportStart s' \<le> newSize"
    using eq by (auto simp: cur_def)
  have fit: "viewportEnd s' - viewportStart s' = newSize" if "newStart + newSize \<le> int len"
    using eq that by (simp add: cur_def)
  have shrink: "newStart + newSize \<le> int len" if "deltaY \<le> 0"
  proof -
    have zf: "(if deltaY > 0 then 11 / 10 else 9 / 10 :: real) = 9 / 10"
      using that by simp
    have "\<lfloor>of_int cur * (9 / 10 :: real)\<rfloor> \<le> cur"
      unfolding floor_scaled using i by linarith
    then have "newSize \<le> cur" using i unfolding cl zf by linarith
    then have "newStart + newSize \<le> viewportEnd s" using i unfolding ns cur_def by (simp add: max_def split: if_splits; linarith)
    then show ?thesis using i by simp
  qed
  show ?thesis using eq le fit shrink by blast
qed

theorem handleWheel_commits_witness:
  "(10::nat) \<le> 90 \<and>
   viewport_inv 90 \<lparr>startIndex = 0, endIndex = 90, scale = 1, dragStartX = None,
       isDragging = False, viewportStart = 9, viewportEnd = 81\<rparr> \<and>
   (- 1 :: real) \<le> 0 \<and>
   handleWheel 90 (- 1) \<lparr>startIndex = 0, endIndex = 90, scale = 1, dragStartX = None,
       isDragging = False, viewportStart = 9, viewportEnd = 81\<rparr> =
     \<lparr>startIndex = 0, endIndex = 90, scale = 1, dragStartX = None,
       isDragging = False, viewportStart = 13, viewportEnd = 77\<rparr> \<and>
   clamp \<lfloor>of_int (81 - 9) * (9 / 10 :: real)\<rfloor> 10 90 = 77 - 13"
  using handleWheel_commits [where len = 90 and deltaY = "- 1" and
    s = "\<lparr>startIndex = 0, endIndex = 90, scale = 1, dragStartX = None,
       isDragging = False, viewportStart = 9, viewportEnd = 81\<rparr>"]
  by (simp add: viewport_inv_def clamp_def)

subsection \<open>Dragging\<close>

text \<open>
  A state satisfying the invariant moves by a non-zero offset exactly when the shifted
  window lies inside the series; the two bounds \<open>Math.max(0, _)\<close> and
  \<open>Math.min(length, _)\<close> then change nothing.
\<close>

lemma handleMouseMove_shift:
  assumes inv: "viewport_inv len s" and drag: "isDragging s" "dragStartX s = Some anchor"
    and off: "dragOffset clientX anchor (viewportEnd s - viewportStart s) width = Some offset"
  shows "handleMouseMove len clientX (Some width) s =
     (if offset \<noteq> 0 \<and> offset \<le> viewportStart s \<and> viewportEnd s - offset \<le> int len
      then s\<lparr>viewportStart := viewportStart s - offset, viewportEnd := viewportEnd s - offset,
             dragStartX := Some clientX\<rparr>
      else s)"
proof -
  from inv have i: "0 \<le> viewportStart s" "viewportStart s < viewportEnd s" "viewportEnd s \<le> int len"
    by (simp_all add: viewport_inv_def)
  have eq: "handleMouseMove len clientX (Some width) s =
     (if offset \<noteq> 0 \<and>
         min (int len) (viewportEnd s - offset) - max 0 (viewportStart s - offset)
           = viewportEnd s - viewportStart s
      then s\<lparr>viewportStart := max 0 (viewportStart s - offset),
             viewportEnd := min (int len) (viewportEnd s - offset),
             dragStartX := Some clientX\<rparr>
      else s)"
    using drag off unfolding handleMouseMove_def Let_def by simp
  show ?thesis
  proof (cases "offset \<le> viewportStart s \<and> viewportEnd s - offset \<le> int len")
    case True
    then have "max 0 (viewportStart s - offset) = viewportStart s - offset"
      "min (int len) (viewportEnd s - offset) = viewportEnd s - offset"
      by simp_all
    then show ?thesis unfolding eq using True by simp
  next
    case False
    then have "min (int len) (viewportEnd s - offset) - max 0 (viewportStart s - offset)
        \<noteq> viewportEnd s - viewportStart s"
      using i by linarith
    then show ?thesis unfolding eq using False by auto
  qed
qed

lemma handleMouseMove_no_offset:
  assumes "dragOffset clientX anchor (viewportEnd s - viewportStart s) width = None"
    and "dragStartX s = Some anchor"
  shows "handleMouseMove len clientX (Some width) s = s"
  using assms by (simp add: handleMouseMove_def)

text \<open>
  The rounding of the two operations, on the numbers used below. The quotient 72 / 800
  rounds to a number just below 0.09. The last two drags show the rounding at work: the
  exact products are 29 and -7, the rounded ones lie just below.
\<close>

lemmas double_evaluation =
  dragOffset_def jsub_def to_double_def exponent_def pow2_def round_even_def
  floor_log2.simps inf_of_sign_def Let_def

lemma dragOffset_minus_80: "dragOffset (anchor - 80) anchor 72 800 = Some (- 8)"
  by (simp add: double_evaluation)

lemma dragOffset_plus_800: "dragOffset 800 0 72 800 = Some 72"
  by (simp add: double_evaluation)

lemma dragOffset_minus_800: "dragOffset (- 800) 0 72 800 = Some (- 72)"
  by (simp add: double_evaluation)

lemma dragOffset_rounded_below_29: "dragOffset 800 0 29 800 = Some 28"
  by (simp add: double_evaluation)

lemma dragOffset_rounded_below_minus_7: "dragOffset (- 200) 0 28 800 = Some (- 8)"
  by (simp add: double_evaluation)

lemma dragOffset_width_0: "dragOffset 800 0 72 0 = None"
  by (simp add: double_evaluation)

text \<open>
  C4, as the specification words it, gives the wrong shift. With a canvas 800 pixels
  wide, the viewport \<open>[9, 81]\<close> of 72 points over 90 and the pointer 80 pixels to the left
  of the anchor, the offset is \<open>floor(-7.2) = -8\<close>, not -7, and the window moves by 8
  indices to \<open>[17, 89]\<close>.
\<close>

theorem drag_scenario_shifts_by_8:
  "viewportStart (handleMouseMove 90 20 (Some 800)
      \<lparr>startIndex = 0, endIndex = 90, scale = 1, dragStartX = Some 100, isDragging = True,
        viewportStart = 9, viewportEnd = 81\<rparr>) = 9 + 8 \<and>
   viewportEnd (handleMouseMove 90 20 (Some 800)
      \<lparr>startIndex = 0, endIndex = 90, scale = 1, dragStartX = Some 100, isDragging = True,
        viewportStart = 9, viewportEnd = 81\<rparr>) = 81 + 8"
  using dragOffset_minus_80 [of 100] by (simp add: handleMouseMove_def Let_def)

text \<open>
  C4, amended. For a drag with canvas width 800, a window of 72 points satisfying the
  invariant and the pointer 80 pixels to the left of the anchor, the offset is
  \<open>floor(-80 * 0.09) = -8\<close>, in exact and in rounded arithmetic. The window moves by +8
  indices (and the anchor moves to the pointer) when the moved window ends at or before
  the length of the series; otherwise the state is left as it is.
\<close>

theorem drag_minus_80_of_72_on_800:
  assumes "viewport_inv len s" and "isDragging s" and "dragStartX s = Some anchor"
    and "viewportEnd s - viewportStart s = 72"
  shows "\<lfloor>(- 80) * (72 / 800 :: real)\<rfloor> = - 8 \<and>
         dragOffset (anchor - 80) anchor 72 800 = Some (- 8) \<and>
         handleMouseMove len (anchor - 80) (Some 800) s =
           (if viewportEnd s + 8 \<le> int len
            then s\<lparr>viewportStart := viewportStart s + 8, viewportEnd := viewportEnd s + 8,
                   dragStartX := Some (anchor - 80)\<rparr>
            else s)"
proof -
  have off: "dragOffset (anchor - 80) anchor (viewportEnd s - viewportStart s) 800 = Some (- 8)"
    unfolding assms(4) by (rule dragOffset_minus_80)
  have st: "0 \<le> viewportStart s" using assms(1) by (simp add: viewport_inv_def)
  have "handleMouseMove len (anchor - 80) (Some 800) s =
           (if viewportEnd s + 8 \<le> int len
            then s\<lparr>viewportStart := viewportStart s + 8, viewportEnd := viewportEnd s + 8,
                   dragStartX := Some (anchor - 80)\<rparr>
            else s)"
    unfolding handleMouseMove_shift [OF assms(1-3) off] using st by simp
  then show ?thesis using dragOffset_minus_80 by simp
qed

theorem drag_minus_80_of_72_on_800_witness:
  "viewport_inv 90 \<lparr>startIndex = 0, endIndex = 90, scale = 1, dragStartX = Some 100, isDragging = True,
        viewportStart = 9, viewportEnd = 81\<rparr> \<and>
   handleMouseMove 90 20 (Some 800)
      \<lparr>startIndex = 0, endIndex = 90, scale = 1, dragStartX = Some 100, isDragging = True,
        viewportStart = 9, viewportEnd = 81\<rparr> =
      \<lparr>startIndex = 0, endIndex = 90, scale = 1, dragStartX = Some 20, isDragging = True,
        viewportStart = 17, viewportEnd = 89\<rparr>"
  using drag_minus_80_of_72_on_800 [where len = 90 and anchor = 100 and
    s = "\<lparr>startIndex = 0, endIndex = 90, scale = 1, dragStartX = Some 100, isDragging = True,
        viewportStart = 9, viewportEnd = 81\<rparr>"]
  by (simp add: viewport_inv_def)

text \<open>
  C5, as the specification words it, fails. Over 90 points with the viewport \<open>[9, 81]\<close>
  and a canvas of 800 pixels, a drag of 800 pixels to the right (an offset of 72) leaves
  the start at 9, not at 0, and a drag of 800 pixels to the left leaves the end at 81,
  not at 90.
\<close>

theorem far_drag_does_not_clamp:
  "viewportStart (handleMouseMove 90 800 (Some 800)
      \<lparr>startIndex = 0, endIndex = 90, scale = 1, dragStartX = Some 0, isDragging = True,
        viewportStart = 9, viewportEnd = 81\<rparr>) = 9 \<and>
   viewportEnd (handleMouseMove 90 (- 800) (Some 800)
      \<lparr>startIndex = 0, endIndex = 90, scale = 1, dragStartX = Some 0, isDragging = True,
        viewportStart = 9, viewportEnd = 81\<rparr>) = 81"
  using dragOffset_plus_800 dragOffset_minus_800 by (simp add: handleMouseMove_def Let_def)

text \<open>
  C5, amended. For a viewport satisfying the invariant and a drag in progress: a drag
  whose offset, as the code computes it, would carry the window below index 0 or beyond
  the length of the series leaves the state as it is (the window is neither moved to the
  boundary nor made smaller); so does a drag whose offset is not finite; and no drag
  changes the size of the window.
\<close>

theorem pan_overshoot_ignored:
  fixes s :: ChartState and clientX anchor :: real and width len :: nat
  defines "s' \<equiv> handleMouseMove len clientX (Some width) s"
  assumes "viewport_inv len s" and "isDragging s" and "dragStartX s = Some anchor"
  shows "(\<forall>offset. dragOffset clientX anchor (viewportEnd s - viewportStart s) width = Some offset \<and>
                    (viewportStart s < offset \<or> int len - viewportEnd s < - offset)
                  \<longrightarrow> s' = s) \<and>
         (dragOffset clientX anchor (viewportEnd s - viewportStart s) width = None \<longrightarrow> s' = s) \<and>
         viewportEnd s' - viewportStart s' = viewportEnd s - viewportStart s"
proof (cases "dragOffset clientX anchor (viewportEnd s - viewportStart s) width")
  case None
  then show ?thesis unfolding s'_def using handleMouseMove_no_offset [OF None assms(4)] by simp
next
  case (Some offset)
  show ?thesis unfolding s'_def handleMouseMove_shift [OF assms(2-4) Some] using Some by auto
qed

theorem pan_overshoot_ignored_witness:
  "viewport_inv 90 \<lparr>startIndex = 0, endIndex = 90, scale = 1, dragStartX = Some 0, isDragging = True,
        viewportStart = 9, viewportEnd = 81\<rparr> \<and>
   dragOffset 800 0 (81 - 9) 800 = Some 72 \<and> (9::int) < 72 \<and>
   handleMouseMove 90 800 (Some 800)
      \<lparr>startIndex = 0, endIndex = 90, scale = 1, dragStartX = Some 0, isDragging = True,
        viewportStart = 9, viewportEnd = 81\<rparr> =
      \<lparr>startIndex = 0, endIndex = 90, scale = 1, dragStartX = Some 0, isDragging = True,
        viewportStart = 9, viewportEnd = 81\<rparr>"
  using pan_overshoot_ignored [where len = 90 and width = 800 and anchor = 0 and clientX = 800 and
    s = "\<lparr>startIndex = 0, endIndex = 90, scale = 1, dragStartX = Some 0, isDragging = True,
        viewportStart = 9, viewportEnd = 81\<rparr>"]
    dragOffset_plus_800
  by (simp add: viewport_inv_def)

subsection \<open>Reset\<close>

text \<open>
  C10. For every chart state, \<open>resetView\<close> sets \<open>viewportStart\<close> to 0 and \<open>viewportEnd\<close>
  to the length of the series, and leaves every other field as it was: \<open>isDragging\<close> and
  \<open>dragStartX\<close> keep their values, so a reset during a drag leaves the drag going.
\<close>

theorem resetView_frame:
  "viewportStart (resetView len s) = 0 \<and>
   viewportEnd (resetView len s) = int len \<and>
   isDragging (resetView len s) = isDragging s \<and>
   dragStartX (resetView len s) = dragStartX s \<and>
   startIndex (resetView len s) = startIndex s \<and>
   endIndex (resetView len s) = endIndex s \<and>
   scale (resetView len s) = scale s \<and>
   ChartState.more (resetView len s) = ChartState.more s"
  by (simp add: resetView_def)

section \<open>Properties of the synthetic series generator\<close>

subsection \<open>Rounding to two decimals is monotone\<close>

lemma toFixed2_nonneg: "0 \<le> x \<Longrightarrow> 0 \<le> toFixed2 x"
proof -
  assume "0 \<le> x"
  then have "0 \<le> \<lfloor>x * 100 + 1 / 2\<rfloor>" by simp
  then show ?thesis using \<open>0 \<le> x\<close> by (simp add: toFixed2_def)
qed

lemma toFixed2_nonpos: "x \<le> 0 \<Longrightarrow> toFixed2 x \<le> 0"
proof -
  assume "x \<le> 0"
  then have "0 \<le> \<lfloor>- x * 100 + 1 / 2\<rfloor>" by simp
  then show ?thesis using \<open>x \<le> 0\<close> by (auto simp: toFixed2_def)
qed

lemma toFixed2_mono:
  assumes "x \<le> y"
  shows "toFixed2 x \<le> toFixed2 y"
proof -
  consider "y < 0" | "x < 0" "0 \<le> y" | "0 \<le> x" using assms by linarith
  then show ?thesis
  proof cases
    case 1
    then have "x < 0" using assms by simp
    have "\<lfloor>- y * 100 + 1 / 2\<rfloor> \<le> \<lfloor>- x * 100 + 1 / 2\<rfloor>"
      using assms by (intro floor_mono) simp
    then have "(of_int \<lfloor>- y * 100 + 1 / 2\<rfloor> :: real) \<le> of_int \<lfloor>- x * 100 + 1 / 2\<rfloor>"
      by simp
    then show ?thesis using 1 \<open>x < 0\<close> by (simp add: toFixed2_def)
  next
    case 2
    have "toFixed2 x \<le> 0" using 2 by (intro toFixed2_nonpos) simp
    moreover have "0 \<le> toFixed2 y" using 2 by (intro toFixed2_nonneg)
    ultimately show ?thesis by simp
  next
    case 3
    then have "0 \<le> y" using assms by simp
    have "\<lfloor>x * 100 + 1 / 2\<rfloor> \<le> \<lfloor>y * 100 + 1 / 2\<rfloor>"
      using assms by (intro floor_mono) simp
    then have "(of_int \<lfloor>x * 100 + 1 / 2\<rfloor> :: real) \<le> of_int \<lfloor>y * 100 + 1 / 2\<rfloor>"
      by simp
    then show ?thesis using 3 \<open>0 \<le> y\<close> by (simp add: toFixed2_def)
  qed
qed

lemma toFixed2_max: "toFixed2 (max a b) = max (toFixed2 a) (toFixed2 b)"
proof -
  have "mono toFixed2" by (simp add: mono_def toFixed2_mono)
  then show ?thesis by (simp add: max_of_mono)
qed

lemma toFixed2_min: "toFixed2 (min a b) = min (toFixed2 a) (toFixed2 b)"
proof -
  have "mono toFixed2" by (simp add: mono_def toFixed2_mono)
  then show ?thesis by (simp add: min_of_mono)
qed

subsection \<open>The generated points\<close>

text \<open>
  What the proofs need of a configuration: a positive lower bound of the price range and
  a volatility in \<open>[0, 1]\<close>. Every configuration of the table has both.
\<close>

lemma config_of_bounds:
  assumes "config_of symbol = Config config"
  shows "0 < fst (range_of config) \<and> 0 \<le> volatility config \<and> volatility config \<le> 1"
proof -
  from assms have "config \<in>
     {\<lparr>base = 117, range_of = (80, 180), volatility = 45 / 1000, trend = 1 / 1000\<rparr>,
      \<lparr>base = 180, range_of = (150, 200), volatility = 2 / 100, trend = 1 / 1000\<rparr>,
      \<lparr>base = 250, range_of = (180, 350), volatility = 45 / 1000, trend = 2 / 1000\<rparr>,
      \<lparr>base = 100, range_of = (80, 130), volatility = 25 / 1000, trend = 0\<rparr>}"
    by (auto simp: config_of_def stockConfigs_def split: if_splits)
  then show ?thesis by auto
qed

lemma mockDay_ok:
  assumes rnd: "\<And>n. 0 \<le> rnd n \<and> rnd n < 1"
    and cfg: "0 < fst (range_of config)" "0 \<le> volatility config" "volatility config \<le> 1"
  shows "ohlc_ok (fst (mockDay symbol config today rnd i k currentPrice))"
proof -
  define opn where "opn = max (fst (range_of config)) (min (snd (range_of config))
    (currentPrice * (1 + (trend config + sin (real i / 15) * (5 / 1000) +
       (rnd k - 1 / 2) * volatility config * 2 + (rnd (k + 1) - 1 / 2) * (15 / 1000) +
       ((base config - currentPrice) / base config) * (5 / 1000)))))"
  define dayRange where "dayRange = volatility config * (3 / 10 + rnd (k + 2) * (7 / 10))"
  define cls where "cls = opn * (1 + (rnd (k + 3) - 1 / 2) * dayRange)"
  define hi where "hi = max opn cls * (1 + rnd (k + 4) * (2 / 100))"
  define lo where "lo = min opn cls * (1 - rnd (k + 5) * (2 / 100))"
  define vol where "vol = \<lfloor>(if symbol = ''TMDX'' then 400000 else 1000000 :: real) *
     (1 + \<bar>(cls - opn) / opn\<bar> * 8) * (1 / 2 + rnd (k + 6))\<rfloor>"
  have day: "fst (mockDay symbol config today rnd i k currentPrice) =
      \<lparr>date = today - int i, open_price = toFixed2 opn, high = toFixed2 hi,
        low = toFixed2 lo, close = toFixed2 cls, volume = of_int vol\<rparr>"
    unfolding mockDay_def Let_def opn_def [symmetric] dayRange_def [symmetric]
      cls_def [symmetric] hi_def [symmetric] lo_def [symmetric] vol_def [symmetric]
    by simp
  have opn_pos: "0 < opn" using cfg(1) unfolding opn_def by simp
  have dr: "0 \<le> dayRange" "dayRange \<le> 1"
  proof -
    have a: "0 \<le> 3 / 10 + rnd (k + 2) * (7 / 10)" "3 / 10 + rnd (k + 2) * (7 / 10) \<le> 1"
      using rnd [of "k + 2"] by simp_all
    show "0 \<le> dayRange" unfolding dayRange_def using cfg(2) a(1) by (rule mult_nonneg_nonneg)
    show "dayRange \<le> 1" unfolding dayRange_def using mult_mono [OF cfg(3) a(2) _ a(1)] by simp
  qed
  have "\<bar>rnd (k + 3) - 1 / 2\<bar> \<le> 1 / 2" using rnd [of "k + 3"] by linarith
  then have "\<bar>(rnd (k + 3) - 1 / 2) * dayRange\<bar> \<le> 1 / 2 * 1"
    unfolding abs_mult using dr by (intro mult_mono) simp_all
  then have "0 \<le> 1 + (rnd (k + 3) - 1 / 2) * dayRange" by linarith
  then have cls_nn: "0 \<le> cls" unfolding cls_def using opn_pos by simp
  have mx: "0 \<le> max opn cls" and mn: "0 \<le> min opn cls" using opn_pos cls_nn by simp_all
  have "max opn cls * 1 \<le> hi" unfolding hi_def
    using rnd [of "k + 4"] mx by (intro mult_left_mono) simp_all
  then have hi: "max (toFixed2 opn) (toFixed2 cls) \<le> toFixed2 hi"
    unfolding toFixed2_max [symmetric] by (intro toFixed2_mono) simp
  have "lo \<le> min opn cls * 1" unfolding lo_def
    using rnd [of "k + 5"] mn by (intro mult_left_mono) simp_all
  then have lo: "toFixed2 lo \<le> min (toFixed2 opn) (toFixed2 cls)"
    unfolding toFixed2_min [symmetric] by (intro toFixed2_mono) simp
  have "0 \<le> (if symbol = ''TMDX'' then 400000 else 1000000 :: real) *
     (1 + \<bar>(cls - opn) / opn\<bar> * 8) * (1 / 2 + rnd (k + 6))"
    using rnd [of "k + 6"] by (intro mult_nonneg_nonneg) auto
  then have "0 \<le> vol" unfolding vol_def by simp
  then show ?thesis unfolding day ohlc_ok_def using hi lo by simp
qed


lemma simpleDay_ok:
  assumes rnd: "\<And>n. 0 \<le> rnd n \<and> rnd n < 1"
  shows "ohlc_ok (fst (simpleDay today rnd i k basePrice))"
proof -
  define opn where "opn = max (basePrice * (1 + (rnd k - 1 / 2) * 2 * (2 / 100))) 10"
  define cls where "cls = opn * (1 + (rnd (k + 1) - 1 / 2) * (2 / 100))"
  define hi where "hi = max opn cls * (1 + rnd (k + 2) * (1 / 100))"
  define lo where "lo = min opn cls * (1 - rnd (k + 3) * (1 / 100))"
  define vol where "vol = \<lfloor>rnd (k + 4) * 1000000\<rfloor> + 100000"
  have day: "fst (simpleDay today rnd i k basePrice) =
      \<lparr>date = today - int i, open_price = toFixed2 opn, high = toFixed2 hi,
        low = toFixed2 lo, close = toFixed2 cls, volume = of_int vol\<rparr>"
    unfolding simpleDay_def Let_def opn_def [symmetric] cls_def [symmetric]
      hi_def [symmetric] lo_def [symmetric] vol_def [symmetric]
    by simp
  have opn_pos: "0 < opn" unfolding opn_def by simp
  have "0 \<le> 1 + (rnd (k + 1) - 1 / 2) * (2 / 100)" using rnd [of "k + 1"] by argo
  then have cls_nn: "0 \<le> cls" unfolding cls_def using opn_pos by simp
  have mx: "0 \<le> max opn cls" and mn: "0 \<le> min opn cls" using opn_pos cls_nn by simp_all
  have "max opn cls * 1 \<le> hi" unfolding hi_def
    using rnd [of "k + 2"] mx by (intro mult_left_mono) simp_all
  then have hi: "max (toFixed2 opn) (toFixed2 cls) \<le> toFixed2 hi"
    unfolding toFixed2_max [symmetric] by (intro toFixed2_mono) simp
  have "lo \<le> min opn cls * 1" unfolding lo_def
    using rnd [of "k + 3"] mn by (intro mult_left_mono) simp_all
  then have lo: "toFixed2 lo \<le> min (toFixed2 opn) (toFixed2 cls)"
    unfolding toFixed2_min [symmetric] by (intro toFixed2_mono) simp
  have "0 \<le> rnd (k + 4) * 1000000" using rnd [of "k + 4"] by simp
  then have "0 \<le> \<lfloor>rnd (k + 4) * 1000000\<rfloor>" by simp
  then have "0 \<le> vol" unfolding vol_def by simp
  then show ?thesis unfolding day ohlc_ok_def using hi lo by simp
qed

lemma mockLoop_ok:
  assumes rnd: "\<And>n. 0 \<le> rnd n \<and> rnd n < 1"
    and cfg: "0 < fst (range_of config)" "0 \<le> volatility config" "volatility config \<le> 1"
  shows "d \<in> set (mockLoop symbol config today rnd i k currentPrice) \<Longrightarrow> ohlc_ok d"
proof (induction i arbitrary: k currentPrice)
  case 0
  then show ?case using mockDay_ok [OF rnd cfg] by simp
next
  case (Suc i)
  then show ?case using mockDay_ok [OF rnd cfg] by auto
qed

lemma simpleLoop_ok:
  assumes rnd: "\<And>n. 0 \<le> rnd n \<and> rnd n < 1"
  shows "d \<in> set (simpleLoop today rnd i k basePrice) \<Longrightarrow> ohlc_ok d"
proof (induction i arbitrary: k basePrice)
  case 0
  then show ?case using simpleDay_ok [OF rnd] by simp
next
  case (Suc i)
  then show ?case using simpleDay_ok [OF rnd] by auto
qed

lemma length_mockLoop: "length (mockLoop symbol config today rnd i k currentPrice) = i + 1"
  by (induction i arbitrary: k currentPrice) simp_all

lemma length_generateMockData:
  "generateMockData symbol days now rnd = Inr xs \<Longrightarrow> length xs = days + 1"
  by (auto simp: generateMockData_def Let_def length_mockLoop
      split: config_value.splits if_splits)

text \<open>
  C8. When every result of \<open>Math.random()\<close> lies in \<open>[0, 1)\<close>, every point produced by
  the generator of \<open>RealStockChart.tsx\<close> and by the one of \<open>StockChart.tsx\<close> has, after
  the rounding to two decimals with which it is emitted, \<open>high \<ge> max(open, close)\<close>,
  \<open>low \<le> min(open, close)\<close> and \<open>volume \<ge> 0\<close>. (A run that raises produces no point.)
\<close>

theorem generated_points_ok:
  assumes "\<forall>n. 0 \<le> rnd n \<and> rnd n < 1"
  shows "(\<forall>xs. generateMockData symbol days now rnd = Inr xs \<longrightarrow> (\<forall>d \<in> set xs. ohlc_ok d)) \<and>
         (\<forall>xs. generateMockData_StockChart days now rnd = Inr xs \<longrightarrow>
            (\<forall>d \<in> set xs. ohlc_ok d))"
proof -
  have rnd: "\<And>n. 0 \<le> rnd n \<and> rnd n < 1" using assms by simp
  have "ohlc_ok d"
    if "generateMockData symbol days now rnd = Inr xs" and "d \<in> set xs" for xs d
  proof -
    from that(1) obtain config where c: "config_of symbol = Config config"
      and xs: "xs = mockLoop symbol config (now div 86400000) rnd days 1
                      (base config + (rnd 0 - 1 / 2) * 15)"
      by (auto simp: generateMockData_def Let_def split: config_value.splits if_splits)
    have cfg: "0 < fst (range_of config)" "0 \<le> volatility config" "volatility config \<le> 1"
      using config_of_bounds [OF c] by simp_all
    show ?thesis using that(2) unfolding xs by (rule mockLoop_ok [where rnd = rnd, OF rnd cfg])
  qed
  moreover have "ohlc_ok d"
    if "generateMockData_StockChart days now rnd = Inr xs" and "d \<in> set xs" for xs d
  proof -
    from that(1) have "xs = simpleLoop (now div 86400000) rnd days 1 (50 + rnd 0 * 100)"
      by (auto simp: generateMockData_StockChart_def split: if_splits)
    then show ?thesis using that(2) by (simp add: simpleLoop_ok [where rnd = rnd, OF rnd])
  qed
  ultimately show ?thesis by blast
qed

theorem generated_points_ok_witness:
  "(\<forall>n::nat. 0 \<le> (1 / 2 :: real) \<and> (1 / 2 :: real) < 1) \<and>
   generateMockData ''TMDX'' 0 1728000000000 (\<lambda>_. 1 / 2) =
     Inr [\<lparr>date = 20000, open_price = 11712 / 100, high = 11829 / 100, low = 11595 / 100,
        close = 11712 / 100, volume = 400000\<rparr>] \<and>
   ohlc_ok \<lparr>date = 20000, open_price = 11712 / 100, high = 11829 / 100, low = 11595 / 100,
        close = 11712 / 100, volume = 400000\<rparr> \<and>
   generateMockData_StockChart 0 1728000000000 (\<lambda>_. 1 / 2) =
     Inr [\<lparr>date = 20000, open_price = 100, high = 1005 / 10, low = 995 / 10,
        close = 100, volume = 600000\<rparr>] \<and>
   ohlc_ok \<lparr>date = 20000, open_price = 100, high = 1005 / 10, low = 995 / 10,
        close = 100, volume = 600000\<rparr>"
  using generated_points_ok [of "\<lambda>_. 1 / 2" "''TMDX''" 0 1728000000000]
  by (simp add: generateMockData_def mockDay_def config_of_def stockConfigs_def
      generateMockData_StockChart_def simpleDay_def toFixed2_def Let_def ohlc_ok_def
      dates_in_range_def time_in_range_def)

section \<open>Properties of the data acquisition\<close>

subsection \<open>Where the points of a returned series come from\<close>









subsection \<open>Order of the dates\<close>

lemma sort_key_Nil_iff: "sort_key f xs = [] \<longleftrightarrow> xs = []"
proof -
  have "length (sort_key f xs) = length xs" by (rule length_sort)
  then show ?thesis by (metis length_0_conv)
qed

text \<open>
  C7, as the specification words it, fails. \<open>fetchYahooFinanceData\<close> sorts but removes no
  duplicate: two timestamps of one day give two points with the same date.
  \<open>fetchRealStockData\<close> returns the points in the order of the payload.
\<close>

theorem returned_dates_not_strictly_increasing:
  "fetchYahooFinanceData (Response 200 (Result
      \<lparr>r_timestamp = Some [0, 3600],
       r_quote = Some \<lparr>q_open = Some [Some 10, Some 11], q_high = Some [Some 12, Some 13],
                       q_low = Some [Some 9, Some 10], q_close = Some [Some 11, Some 12],
                       q_volume = Some [Some 1000, None]\<rparr>\<rparr>)) =
     Inr [\<lparr>date = 0, open_price = 10, high = 12, low = 9, close = 11, volume = 1000\<rparr>,
          \<lparr>date = 0, open_price = 11, high = 13, low = 10, close = 12, volume = 0\<rparr>] \<and>
   fetchRealStockData (Response 200 (Result
      \<lparr>r_timestamp = Some [86400, 0],
       r_quote = Some \<lparr>q_open = Some [Some 10, Some 11], q_high = Some [Some 12, Some 13],
                       q_low = Some [Some 9, Some 10], q_close = Some [Some 11, Some 12],
                       q_volume = Some [Some 1000, None]\<rparr>\<rparr>)) =
     Inr [\<lparr>date = 1, open_price = 10, high = 12, low = 9, close = 11, volume = 1000\<rparr>,
          \<lparr>date = 0, open_price = 11, high = 13, low = 10, close = 12, volume = 0\<rparr>]"
  by (simp add: fetchRealStockData_def fetchYahooFinanceData_def ok_def opt_at_def cell_at_def or_zero_def
      day_of_def toFixed2_def Let_def)

text \<open>
  C7, amended. Every series returned by \<open>fetchYahooFinanceData\<close> is not empty and has
  its dates in ascending order; equal dates can follow one another.
\<close>

theorem yahoo_series_sorted:
  assumes "fetchYahooFinanceData reply = Inr xs"
  shows "sorted (map date xs) \<and> xs \<noteq> []"
  using assms
  by (auto simp: fetchYahooFinanceData_def Let_def sort_key_Nil_iff
      split: reply.splits body.splits option.splits if_splits)

theorem yahoo_series_sorted_witness:
  "fetchYahooFinanceData (Response 200 (Result
      \<lparr>r_timestamp = Some [172800, 0, 86400],
       r_quote = Some \<lparr>q_open = Some [Some 10, Some 11, Some 12],
                       q_high = Some [Some 12, Some 13, Some 14],
                       q_low = Some [Some 9, Some 10, Some 11],
                       q_close = Some [Some 11, Some 12, Some 13],
                       q_volume = Some [Some 1000, None, Some 5]\<rparr>\<rparr>)) =
     Inr [\<lparr>date = 0, open_price = 11, high = 13, low = 10, close = 12, volume = 0\<rparr>,
          \<lparr>date = 1, open_price = 12, high = 14, low = 11, close = 13, volume = 5\<rparr>,
          \<lparr>date = 2, open_price = 10, high = 12, low = 9, close = 11, volume = 1000\<rparr>] \<and>
   sorted (map date
         [\<lparr>date = 0, open_price = 11, high = 13, low = 10, close = 12, volume = 0\<rparr>,
          \<lparr>date = 1, open_price = 12, high = 14, low = 11, close = 13, volume = 5\<rparr>,
          \<lparr>date = 2, open_price = 10, high = 12, low = 9, close = 11, volume = 1000\<rparr>])"
  using yahoo_series_sorted [where reply = "Response 200 (Result
      \<lparr>r_timestamp = Some [172800, 0, 86400],
       r_quote = Some \<lparr>q_open = Some [Some 10, Some 11, Some 12],
                       q_high = Some [Some 12, Some 13, Some 14],
                       q_low = Some [Some 9, Some 10, Some 11],
                       q_close = Some [Some 11, Some 12, Some 13],
                       q_volume = Some [Some 1000, None, Some 5]\<rparr>\<rparr>)" and
    xs = "[\<lparr>date = 0, open_price = 11, high = 13, low = 10, close = 12, volume = 0\<rparr>,
          \<lparr>date = 1, open_price = 12, high = 14, low = 11, close = 13, volume = 5\<rparr>,
          \<lparr>date = 2, open_price = 10, high = 12, low = 9, close = 11, volume = 1000\<rparr>]"]
  by (simp add: fetchRealStockData_def fetchYahooFinanceData_def ok_def opt_at_def cell_at_def or_zero_def
      day_of_def toFixed2_def Let_def)

subsection \<open>Fallback to the synthetic series\<close>

text \<open>
  \<open>loadData\<close> returns a component state for every reply of the network: each error
  raised under it is a value handled by one of its two \<open>catch\<close> clauses. With
  \<open>useRealData\<close> set, whenever \<open>fetchRealStockData\<close> raises, with whatever error, and
  the generator returns, the state holds the synthetic series of \<open>days + 1\<close> points, the
  data source is \<open>mock\<close>, \<open>error\<close> holds the warning that simulated data is shown,
  \<open>loading\<close> is cleared, and the component shows the chart panel with that warning.
\<close>

lemma loadData_falls_back:
  fixes c :: Component and symbol :: string and days :: nat and reply :: reply
    and now :: int and rnd :: "nat \<Rightarrow> real"
  defines "c' \<equiv> loadData symbol days True reply now rnd c"
  assumes "fetchRealStockData reply = Inl e"
    and "generateMockData symbol days now rnd = Inr xs"
  shows "stockData c' = xs \<and>
         length (stockData c') = days + 1 \<and>
         dataSource c' = mock \<and>
         error c' = Some RealDataFailedShowingMock \<and>
         \<not> loading c' \<and>
         render c' = ChartPanel mock (Some RealDataFailedShowingMock)"
  using assms(2,3) length_generateMockData [OF assms(3)] unfolding c'_def
  by (simp add: loadData_def render_def)

text \<open>
  C3. The claim is that every failure of the live source ends in a synthetic series,
  marked as such and with a warning. \<open>loadData\<close> misses two cases.
  \<^item> A reply whose points all fail the filter (here one point with \<open>open = null\<close>):
    \<open>fetchRealStockData\<close> returns the empty array without raising, where
    \<open>fetchYahooFinanceData\<close> raises on an empty array. \<open>loadData\<close> stores the empty
    series with the data source \<open>api\<close> and no warning; no synthetic series is made.
  \<^item> A symbol that names an inherited property (here \<open>constructor\<close>), with the request
    rejected: the generator raises, the outer \<open>catch\<close> sets \<open>DataLoadFailed\<close>, and
    the component is left without a series.
\<close>

theorem loadData_without_fallback:
  "fetchRealStockData
     (Response 200 (Result
        \<lparr>r_timestamp = Some [0],
         r_quote = Some \<lparr>q_open = Some [None], q_high = Some [Some 1], q_low = Some [Some 1],
                         q_close = Some [Some 1], q_volume = Some [Some 1]\<rparr>\<rparr>)) = Inr [] \<and>
   loadData ''TMDX'' 90 True
     (Response 200 (Result
        \<lparr>r_timestamp = Some [0],
         r_quote = Some \<lparr>q_open = Some [None], q_high = Some [Some 1], q_low = Some [Some 1],
                         q_close = Some [Some 1], q_volume = Some [Some 1]\<rparr>\<rparr>)) 1728000000000 (\<lambda>_. 1 / 2)
      \<lparr>stockData = [], loading = True, error = None, dataSource = mock,
       chartState = \<lparr>startIndex = 0, endIndex = 90, scale = 1, dragStartX = None,
         isDragging = False, viewportStart = 0, viewportEnd = 90\<rparr>\<rparr> =
     \<lparr>stockData = [], loading = False, error = None, dataSource = api,
       chartState = \<lparr>startIndex = 0, endIndex = 0, scale = 1, dragStartX = None,
         isDragging = False, viewportStart = 0, viewportEnd = 0\<rparr>\<rparr> \<and>
   generateMockData ''constructor'' 90 1728000000000 (\<lambda>_. 1 / 2) = Inl TypeError \<and>
   loadData ''constructor'' 90 True Rejected 1728000000000 (\<lambda>_. 1 / 2)
      \<lparr>stockData = [], loading = True, error = None, dataSource = mock,
       chartState = \<lparr>startIndex = 0, endIndex = 90, scale = 1, dragStartX = None,
         isDragging = False, viewportStart = 0, viewportEnd = 90\<rparr>\<rparr> =
     \<lparr>stockData = [], loading = False, error = Some DataLoadFailed, dataSource = mock,
       chartState = \<lparr>startIndex = 0, endIndex = 90, scale = 1, dragStartX = None,
         isDragging = False, viewportStart = 0, viewportEnd = 90\<rparr>\<rparr>"
  by (simp add: loadData_def fetchRealStockData_def ok_def cell_at_def or_zero_def day_of_def
      toFixed2_def generateMockData_def config_of_def stockConfigs_def inherited_keys_def)

section \<open>Properties of the rendering\<close>

subsection \<open>A price scale that is not finite\<close>

lemma jmul_by_nonfinite: "\<not> is_finite b \<Longrightarrow> \<not> is_finite (jmul (Fin a) b)"
  by (cases b) (auto simp: inf_of_sign_def)

lemma jadd_nonfinite: "\<not> is_finite b \<Longrightarrow> \<not> is_finite (jadd (Fin a) b)"
  by (cases b) auto

lemma jmin_nonfinite: "\<not> is_finite a \<Longrightarrow> \<not> is_finite b \<Longrightarrow> \<not> is_finite (jmin a b)"
  by (cases a; cases b) auto

lemma jdiv_by_zero: "\<not> is_finite (jdiv (Fin a) (Fin 0))"
  by (simp add: inf_of_sign_def)

lemma finite_cmd_y: "finite_cmd c \<Longrightarrow> is_finite (y_of c)"
  by (cases c) simp_all

lemma candle_nonfinite:
  assumes ps: "\<not> is_finite priceScale"
    and c: "c \<in> set (candle chartWidth maxPrice priceScale candleWidth count index item)"
  shows "\<not> is_finite (y_of c)"
proof -
  have y: "\<not> is_finite (jadd (Fin 60) (jmul (Fin a) priceScale))" for a
    by (intro jadd_nonfinite jmul_by_nonfinite ps)
  show ?thesis using c y jmin_nonfinite [OF y y]
    by (auto simp: candle_def Let_def split: if_splits)
qed

lemma flat_prices:
  assumes "visibleData \<noteq> []" and "\<forall>d \<in> set visibleData. high d = p \<and> low d = p"
  shows "set (concat (map (\<lambda>d. [high d, low d]) visibleData)) = {p}"
proof -
  obtain d where "d \<in> set visibleData" using assms(1) by (cases visibleData) auto
  then show ?thesis using assms(2) by auto
qed

lemma drawCandles_flat:
  assumes ne: "visibleData \<noteq> []" and flat: "\<forall>d \<in> set visibleData. high d = p \<and> low d = p"
    and c: "c \<in> set (drawCandles width height visibleData)"
  shows "\<not> is_finite (y_of c)"
proof -
  have mm: "Max (set (concat (map (\<lambda>d. [high d, low d]) visibleData))) -
      Min (set (concat (map (\<lambda>d. [high d, low d]) visibleData))) = 0"
    unfolding flat_prices [OF ne flat] by simp
  from c obtain chartWidth maxPrice candleWidth index item where
    "c \<in> set (candle chartWidth maxPrice (jdiv (Fin (real height - 60 * 2)) (Fin 0))
                candleWidth (length visibleData) index item)"
    unfolding drawCandles_def Let_def mm by auto
  then show ?thesis using candle_nonfinite [OF jdiv_by_zero] by blast
qed

lemma length_drawCandles: "length (drawCandles width height visibleData) = 3 * length visibleData"
proof -
  have "length (concat (map (\<lambda>(index, item). candle a b c d n index item) xs)) = 3 * length xs"
    for a b c d n and xs :: "(nat \<times> StockData) list"
    by (induction xs) (auto simp: candle_def Let_def)
  then show ?thesis by (simp add: drawCandles_def Let_def)
qed

text \<open>
  C9, as the specification words it, fails. With two visible points whose prices all are
  100 on a canvas of 800 by 500, \<open>priceRange\<close> is 0, \<open>priceScale\<close> is \<open>380 / 0\<close>,
  and every y coordinate passed to the canvas is NaN: no call has finite coordinates.
\<close>

theorem flat_slice_has_NaN_coordinates:
  "drawChart (Some (800, 500))
     \<lparr>stockData = [\<lparr>date = 0, open_price = 100, high = 100, low = 100, close = 100, volume = 1\<rparr>,
                   \<lparr>date = 1, open_price = 100, high = 100, low = 100, close = 100, volume = 1\<rparr>],
       loading = False, error = None, dataSource = mock,
       chartState = \<lparr>startIndex = 0, endIndex = 2, scale = 1, dragStartX = None,
         isDragging = False, viewportStart = 0, viewportEnd = 2\<rparr>\<rparr> =
   [MoveTo (Fin 60) NaN, LineTo (Fin 60) NaN, FillRect (Fin (- 76)) NaN (Fin 272) NaN,
    MoveTo (Fin 740) NaN, LineTo (Fin 740) NaN, FillRect (Fin 604) NaN (Fin 272) NaN]"
  by (simp add: drawChart_def drawCandles_def candle_def slice_def Let_def jsub_def inf_of_sign_def)

text \<open>
  C9, amended. For every non-empty visible slice in which every point has the same high
  and low price, \<open>drawChart\<close> raises nothing and issues its three calls for each visible
  point, but it does divide by zero: the price scale is not finite, and the y coordinate
  of every call for a candle is not a finite number (the canvas ignores such calls, so no
  flat line appears).
\<close>

theorem flat_slice_divides_by_zero:
  assumes "slice (stockData c) (viewportStart (chartState c)) (viewportEnd (chartState c)) \<noteq> []"
    and "\<forall>d \<in> set (slice (stockData c) (viewportStart (chartState c)) (viewportEnd (chartState c))).
           high d = p \<and> low d = p"
  shows "(\<forall>call \<in> set (drawChart (Some (width, height)) c).
            \<not> is_finite (y_of call) \<and> \<not> finite_cmd call) \<and>
         length (drawChart (Some (width, height)) c) =
           3 * length (slice (stockData c) (viewportStart (chartState c)) (viewportEnd (chartState c)))"
proof -
  have "stockData c \<noteq> []" using assms(1) by (auto simp: slice_def Let_def)
  then have "drawChart (Some (width, height)) c =
      drawCandles width height
        (slice (stockData c) (viewportStart (chartState c)) (viewportEnd (chartState c)))"
    using assms(1) by (simp add: drawChart_def Let_def)
  then have dc: "drawChart (Some (width, height)) c =
      drawCandles width height
        (slice (stockData c) (viewportStart (chartState c)) (viewportEnd (chartState c)))" .
  have y: "\<not> is_finite (y_of call)" if "call \<in> set (drawChart (Some (width, height)) c)"
    for call
    using that drawCandles_flat [OF assms] unfolding dc by blast
  have "\<not> finite_cmd call" if "call \<in> set (drawChart (Some (width, height)) c)" for call
    using y [OF that] finite_cmd_y by blast
  then show ?thesis using y unfolding dc length_drawCandles by blast
qed

theorem flat_slice_divides_by_zero_witness:
  "slice [\<lparr>date = 0, open_price = 50, high = 50, low = 50, close = 50, volume = 1\<rparr>] 0 1 =
     [\<lparr>date = 0, open_price = 50, high = 50, low = 50, close = 50, volume = 1\<rparr>] \<and>
   length (drawChart (Some (600, 400))
     \<lparr>stockData = [\<lparr>date = 0, open_price = 50, high = 50, low = 50, close = 50, volume = 1\<rparr>],
       loading = False, error = None, dataSource = mock,
       chartState = \<lparr>startIndex = 0, endIndex = 1, scale = 1, dragStartX = None,
         isDragging = False, viewportStart = 0, viewportEnd = 1\<rparr>\<rparr>) = 3 \<and>
   y_of (hd (drawChart (Some (600, 400))
     \<lparr>stockData = [\<lparr>date = 0, open_price = 50, high = 50, low = 50, close = 50, volume = 1\<rparr>],
       loading = False, error = None, dataSource = mock,
       chartState = \<lparr>startIndex = 0, endIndex = 1, scale = 1, dragStartX = None,
         isDragging = False, viewportStart = 0, viewportEnd = 1\<rparr>\<rparr>)) = NaN"
  using flat_slice_divides_by_zero [where p = 50 and width = 600 and height = 400 and
    c = "\<lparr>stockData = [\<lparr>date = 0, open_price = 50, high = 50, low = 50, close = 50, volume = 1\<rparr>],
       loading = False, error = None, dataSource = mock,
       chartState = \<lparr>startIndex = 0, endIndex = 1, scale = 1, dragStartX = None,
         isDragging = False, viewportStart = 0, viewportEnd = 1\<rparr>\<rparr>"]
  by (simp add: drawChart_def drawCandles_def candle_def slice_def Let_def jsub_def inf_of_sign_def)

end
